theory Spec2Isabelle
  imports Complex_Main "HOL-Library.Word"
begin

unbundle bit_operations_syntax

section \<open>Data model of the candidate creator\<close>

text \<open>
  The development follows \<^verbatim>\<open>PWGHF/TableProducer/candidateCreatorSigmac0plusplus.cxx\<close>.
  Table rows are records holding the columns the code reads. A row reached through an
  index column (\<^verbatim>\<open>candLc.prong0_as<...>()\<close>) is a field holding the row it points to.
  C++ \<^verbatim>\<open>int8_t\<close> and \<^verbatim>\<open>uint8_t\<close> are \<open>8 word\<close>, \<^verbatim>\<open>short\<close> is \<open>16 word\<close>,
  \<^verbatim>\<open>int64_t\<close> is \<open>64 word\<close>; \<^verbatim>\<open>sint\<close> reads the signed value. Values that are only
  copied or compared with a constant are \<open>int\<close>. The \<^verbatim>\<open>float\<close> and \<^verbatim>\<open>double\<close> columns are
  \<open>real\<close>: the code only copies them, subtracts two of them once and compares. The
  function \<^verbatim>\<open>init\<close> only configures the track cut object, whose test is a parameter here.
\<close>

type_synonym int8 = "8 word"

text \<open>A row of \<^verbatim>\<open>TracksSigmac = soa::Join<aod::FullTracks, aod::TracksDCA>\<close>.\<close>

record track =
  globalIndex :: "64 word"
  sign :: "16 word"
  px :: real
  py :: real
  pz :: real

text \<open>A row of \<^verbatim>\<open>soa::Join<aod::HfCand3Prong, aod::HfSelLc>\<close>, the \<open>\<Lambda>c\<close> candidate.\<close>

record cand_lc =
  collisionId :: int
  globalIndexLc :: "64 word"
  pxLc :: real
  pyLc :: real
  pzLc :: real
  prong0 :: track
  prong1 :: track
  prong2 :: track
  hfflag :: "8 word"
  isSelLcToPKPi :: int
  isSelLcToPiKP :: int

text \<open>
  The arguments of one call of the table cursor \<^verbatim>\<open>rowScCandidates(...)\<close>, in the order of
  the call, named after the expressions passed.
\<close>

record sc_row =
  rowCollisionId :: int
  rowPxLc :: real
  rowPyLc :: real
  rowPzLc :: real
  rowPxSoftPi :: real
  rowPySoftPi :: real
  rowPzSoftPi :: real
  rowLcGlobalIndex :: "64 word"
  rowSoftPiGlobalIndex :: "64 word"
  rowHfflag :: "8 word"
  rowCharge :: int8
  statusSpreadMinvPKPiFromPDG :: int
  statusSpreadMinvPiKPFromPDG :: int

text \<open>The configurables that \<^verbatim>\<open>process\<close> and the candidate filter read.\<close>

record config =
  selectionFlagLc :: int
  yCandLcMax :: real
  mPKPiCandLcMax :: real
  mPiKPCandLcMax :: real

text \<open>
  The enumerators and particle codes the file uses and does not declare: the decay types
  \<^verbatim>\<open>hf_cand_3prong::DecayType::LcToPKPi\<close>,
  \<^verbatim>\<open>hf_cand_sigmac::DecayType::Sc0ToPKPiPi\<close> and \<^verbatim>\<open>ScplusplusToPKPiPi\<close> (used as shift
  counts), and the PDG codes. They are parameters of the model, so every theorem that does not
  fix them holds for each value of them.
\<close>

record hf_consts =
  LcToPKPi :: nat
  Sc0ToPKPiPi :: nat
  ScplusplusToPKPiPi :: nat
  kLambdaCPlus :: int
  kSigmaC0 :: int
  kSigmaCPlusPlus :: int
  kProton :: int
  kKPlus :: int
  kPiPlus :: int
  kPiMinus :: int

text \<open>
  What \<^verbatim>\<open>process\<close> calls and the file does not define: the value of
  \<^verbatim>\<open>RecoDecay::getMassPDG(pdg::Code::kLambdaCPlus)\<close>, the kinematic helpers \<^verbatim>\<open>yLc\<close>,
  \<^verbatim>\<open>invMassLcToPKPi\<close> and \<^verbatim>\<open>invMassLcToPiKP\<close>, and the track cut object's
  \<^verbatim>\<open>softPiCuts.IsSelected\<close>. They are parameters as well.
\<close>

record hf_env =
  massLambdaCPlus :: real
  yLc :: "cand_lc \<Rightarrow> real"
  invMassLcToPKPi :: "cand_lc \<Rightarrow> real"
  invMassLcToPiKP :: "cand_lc \<Rightarrow> real"
  IsSelected :: "track \<Rightarrow> bool"

text \<open>
  The effects of \<^verbatim>\<open>process\<close>: the rows filled into the output table and the messages
  given to the logger, each in the order of the calls.
\<close>

record sc_out =
  rowScCandidates :: "sc_row list"
  logFatal :: "(int \<times> int) list"

definition out0 :: sc_out where
  "out0 = \<lparr>rowScCandidates = [], logFatal = []\<rparr>"

section \<open>The candidate creator\<close>

text \<open>
  The filter expression \<^verbatim>\<open>filterSelectCandidateLc\<close>; the framework applies it to the
  candidate table before \<^verbatim>\<open>process\<close> receives it.
\<close>

definition filterSelectCandidateLc :: "config \<Rightarrow> cand_lc \<Rightarrow> bool" where
  "filterSelectCandidateLc cfg candLc =
     (isSelLcToPKPi candLc \<ge> selectionFlagLc cfg \<or> isSelLcToPiKP candLc \<ge> selectionFlagLc cfg)"

text \<open>
  Modelled from the spec: the framework's logging macro \<^verbatim>\<open>LOG(fatal)\<close>, which is not declared
  in the file. Sections 4.2 and 7 of the specification have the offending charges logged and
  the processing go on, so the model appends the two charges of the message to the log and
  returns.
\<close>

definition LOG_fatal :: "int \<Rightarrow> int \<Rightarrow> sc_out \<Rightarrow> sc_out" where
  "LOG_fatal chargeLc chargeSoftPi s = s\<lparr>logFatal := logFatal s @ [(chargeLc, chargeSoftPi)]\<rparr>"

text \<open>
  The body of the loop over tracks, for one \<open>\<Lambda>c\<close> candidate whose two mass-window statuses
  are already computed. The four \<^verbatim>\<open>int index...\<close> variables narrow the 64-bit global index
  to 32 bits. The three \<^verbatim>\<open>short\<close> signs are added as \<^verbatim>\<open>int\<close>, where the sum cannot
  overflow, and the sum with the soft pion's sign is converted to \<^verbatim>\<open>int8_t\<close>.
  \<^verbatim>\<open>std::abs\<close> works on the value promoted to \<^verbatim>\<open>int\<close>.
\<close>

definition trackStep :: "hf_env \<Rightarrow> cand_lc \<Rightarrow> int \<Rightarrow> int \<Rightarrow> track \<Rightarrow> sc_out \<Rightarrow> sc_out" where
  "trackStep E candLc statusPKPi statusPiKP trackSoftPi s =
     (if \<not> IsSelected E trackSoftPi then s
      else
        let indexProng0 = (ucast (globalIndex (prong0 candLc)) :: 32 word);
            indexProng1 = (ucast (globalIndex (prong1 candLc)) :: 32 word);
            indexProng2 = (ucast (globalIndex (prong2 candLc)) :: 32 word);
            indexSoftPi = (ucast (globalIndex trackSoftPi) :: 32 word)
        in
          if indexSoftPi = indexProng0 \<or> indexSoftPi = indexProng1 \<or> indexSoftPi = indexProng2
          then s
          else
            let chargeLc = sint (sign (prong0 candLc)) + sint (sign (prong1 candLc))
                             + sint (sign (prong2 candLc));
                chargeSoftPi = sint (sign trackSoftPi);
                chargeSigmac = (word_of_int (chargeLc + chargeSoftPi) :: int8)
            in
              if \<bar>sint chargeSigmac\<bar> \<noteq> 0 \<and> \<bar>sint chargeSigmac\<bar> \<noteq> 2
              then LOG_fatal chargeLc chargeSoftPi s
              else s\<lparr>rowScCandidates := rowScCandidates s @
                     [\<lparr>rowCollisionId = collisionId candLc,
                       rowPxLc = pxLc candLc, rowPyLc = pyLc candLc, rowPzLc = pzLc candLc,
                       rowPxSoftPi = px trackSoftPi, rowPySoftPi = py trackSoftPi,
                       rowPzSoftPi = pz trackSoftPi,
                       rowLcGlobalIndex = globalIndexLc candLc,
                       rowSoftPiGlobalIndex = globalIndex trackSoftPi,
                       rowHfflag = hfflag candLc,
                       rowCharge = chargeSigmac,
                       statusSpreadMinvPKPiFromPDG = statusPKPi,
                       statusSpreadMinvPiKPFromPDG = statusPiKP\<rparr>]\<rparr>)"

text \<open>
  The body of the loop over candidates. \<^verbatim>\<open>candLc.hfflag() & 1 << DecayType::LcToPKPi\<close> is
  computed on \<^verbatim>\<open>int\<close>, the flag byte promoted.
\<close>

definition candStep ::
  "hf_consts \<Rightarrow> hf_env \<Rightarrow> config \<Rightarrow> track list \<Rightarrow> cand_lc \<Rightarrow> sc_out \<Rightarrow> sc_out" where
  "candStep C E cfg tracks candLc s =
     (if (uint (hfflag candLc) AND push_bit (LcToPKPi C) 1) = 0 then s
      else if yCandLcMax cfg \<ge> 0 \<and> \<bar>yLc E candLc\<bar> > yCandLcMax cfg then s
      else
        let statusPKPi =
              (if isSelLcToPKPi candLc \<ge> 1
                  \<and> \<bar>invMassLcToPKPi E candLc - massLambdaCPlus E\<bar> \<le> mPKPiCandLcMax cfg
               then 1 else 0 :: int);
            statusPiKP =
              (if isSelLcToPiKP candLc \<ge> 1
                  \<and> \<bar>invMassLcToPiKP E candLc - massLambdaCPlus E\<bar> \<le> mPiKPCandLcMax cfg
               then 1 else 0 :: int)
        in
          if statusPKPi = 0 \<and> statusPiKP = 0 then s
          else fold (trackStep E candLc statusPKPi statusPiKP) tracks s)"

text \<open>
  \<^verbatim>\<open>process\<close>: the loop over the candidates of one collision, on the tracks of that
  collision. The body does not read its \<^verbatim>\<open>collision\<close> argument, which is left out. The
  output is passed in and returned, so that events are processed one after the other.
\<close>

definition process ::
  "hf_consts \<Rightarrow> hf_env \<Rightarrow> config \<Rightarrow> track list \<Rightarrow> cand_lc list \<Rightarrow> sc_out \<Rightarrow> sc_out" where
  "process C E cfg tracks candidates s = fold (candStep C E cfg tracks) candidates s"

section \<open>Data model of the Monte-Carlo matching\<close>

text \<open>A row of \<^verbatim>\<open>TracksMC = soa::Join<aod::Tracks, aod::McTrackLabels>\<close>.\<close>

record track_mc =
  mcParticleId :: int

text \<open>
  A row of \<^verbatim>\<open>LambdacMc\<close>, the \<open>\<Lambda>c\<close> candidate joined with its reconstruction-level
  matching flag. Its prongs are rows of \<^verbatim>\<open>TracksMC\<close> here (\<^verbatim>\<open>prong0_as<TracksMC>()\<close>).
\<close>

record cand_lc_mc =
  prong0Mc :: track_mc
  prong1Mc :: track_mc
  prong2Mc :: track_mc
  flagMcMatchRec :: int8

text \<open>
  A row of the spawned table \<^verbatim>\<open>candidatesSigmac\<close>: \<^verbatim>\<open>prongLc_as<LambdacMc>()\<close>,
  \<^verbatim>\<open>prong1_as<TracksMC>()\<close> (the soft pion) and \<^verbatim>\<open>charge()\<close>.
\<close>

record cand_sc =
  prongLc :: cand_lc_mc
  prongSoftPi :: track_mc
  charge :: int8

text \<open>
  A row of \<^verbatim>\<open>aod::McParticles\<close>. Mothers and daughters are indices of the same table. A row
  iterator of the table is modelled by its index, so \<^verbatim>\<open>particlesMc.rawIteratorAt(i)\<close> is
  \<open>i\<close> itself.
\<close>

record mc_particle =
  pdgCode :: int
  mothersIds :: "int list"
  daughtersIds :: "int list"

definition rowAt :: "mc_particle list \<Rightarrow> int \<Rightarrow> mc_particle option" where
  "rowAt particlesMc i =
     (if 0 \<le> i \<and> i < int (length particlesMc) then Some (particlesMc ! nat i) else None)"

text \<open>
  \<^verbatim>\<open>particle.daughters_as<aod::McParticles>()\<close>: the daughters of a row, as iterators. The
  framework links rows of the table only; an index outside the table is left out.
\<close>

definition daughters_as :: "mc_particle list \<Rightarrow> int \<Rightarrow> int list" where
  "daughters_as particlesMc particle =
     (case rowAt particlesMc particle of
        None \<Rightarrow> []
      | Some p \<Rightarrow> filter (\<lambda>d. 0 \<le> d \<and> d < int (length particlesMc)) (daughtersIds p))"

definition pdgCodeAt :: "mc_particle list \<Rightarrow> int \<Rightarrow> int" where
  "pdgCodeAt particlesMc i = (case rowAt particlesMc i of None \<Rightarrow> 0 | Some p \<Rightarrow> pdgCode p)"

text \<open>
  The three functions of \<^verbatim>\<open>RecoDecay\<close> that \<^verbatim>\<open>processMc\<close> calls; their code is not in the
  file, so they are parameters. Each takes the particle table first. \<^verbatim>\<open>getMatchedMCRec\<close>
  returns the index of the matched particle (or a negative number) and \<^verbatim>\<open>isMatchedMCGen\<close>
  a truth value; the second component of either result is what the call stores through its
  \<^verbatim>\<open>&sign\<close> argument. The arguments after the table are: the daughters (or the particle), the
  expected mother code, the expected daughter codes, \<^verbatim>\<open>acceptAntiParticles\<close> and
  \<^verbatim>\<open>depthMax\<close>.
\<close>

record reco_decay =
  getMatchedMCRec ::
    "mc_particle list \<Rightarrow> track_mc list \<Rightarrow> int \<Rightarrow> int list \<Rightarrow> bool \<Rightarrow> nat \<Rightarrow> int \<times> int8"
  isMatchedMCGen ::
    "mc_particle list \<Rightarrow> int \<Rightarrow> int \<Rightarrow> int list \<Rightarrow> bool \<Rightarrow> nat \<Rightarrow> bool \<times> int8"
  getCharmHadronOrigin :: "mc_particle list \<Rightarrow> int \<Rightarrow> int"

text \<open>
  The local variables of \<^verbatim>\<open>processMc\<close>, which live across both loops, and the two label
  tables it fills. The local \<^verbatim>\<open>sign\<close> is \<open>signMc\<close> here, the name \<open>sign\<close> being the
  column of the tracks.
\<close>

record mc_state =
  indexRec :: int
  signMc :: int8
  flag :: int8
  origin :: int8
  chargeSigmac :: int8
  rowMCMatchScRec :: "(int8 \<times> int8) list"
  rowMCMatchScGen :: "(int8 \<times> int8) list"

definition mc_init :: mc_state where
  "mc_init = \<lparr>indexRec = - 1, signMc = 0, flag = 0, origin = 0, chargeSigmac = 10,
              rowMCMatchScRec = [], rowMCMatchScGen = []\<rparr>"

section \<open>The Monte-Carlo matching\<close>

text \<open>
  \<^verbatim>\<open>flag = sign * (1 << decayType)\<close>: the product is computed on \<^verbatim>\<open>int\<close> and converted to
  \<^verbatim>\<open>int8_t\<close>.
\<close>

definition signedFlag :: "int8 \<Rightarrow> nat \<Rightarrow> int8" where
  "signedFlag sg decayType = word_of_int (sint sg * push_bit decayType 1)"

text \<open>The block \<^verbatim>\<open>if (flag != 0) { ... getCharmHadronOrigin ... }\<close>, the same in both loops.\<close>

definition checkOrigin :: "reco_decay \<Rightarrow> mc_particle list \<Rightarrow> mc_state \<Rightarrow> mc_state" where
  "checkOrigin H particlesMc s =
     (if flag s \<noteq> 0
      then s\<lparr>origin := word_of_int (getCharmHadronOrigin H particlesMc (indexRec s))\<rparr>
      else s)"

text \<open>The two fill calls \<^verbatim>\<open>rowMCMatchScRec(flag, origin)\<close> and \<^verbatim>\<open>rowMCMatchScGen(flag, origin)\<close>.\<close>

definition fillRec :: "mc_state \<Rightarrow> mc_state" where
  "fillRec s = s\<lparr>rowMCMatchScRec := rowMCMatchScRec s @ [(flag s, origin s)]\<rparr>"

definition fillGen :: "mc_state \<Rightarrow> mc_state" where
  "fillGen s = s\<lparr>rowMCMatchScGen := rowMCMatchScGen s @ [(flag s, origin s)]\<rparr>"

text \<open>
  The branches on the stored charge of a reconstructed candidate: the call of
  \<^verbatim>\<open>getMatchedMCRec\<close> for the \<open>\<Sigma>c0\<close> or for the \<open>\<Sigma>c++\<close>, or neither.
\<close>

definition matchRec ::
  "reco_decay \<Rightarrow> hf_consts \<Rightarrow> mc_particle list \<Rightarrow> track_mc list \<Rightarrow> mc_state \<Rightarrow> mc_state" where
  "matchRec H C particlesMc arrayDaughters s =
     (if chargeSigmac s = 0 then
        let r = getMatchedMCRec H particlesMc arrayDaughters (kSigmaC0 C)
                  [kProton C, - kKPlus C, kPiPlus C, - kPiPlus C] True 3;
            s' = s\<lparr>indexRec := fst r, signMc := snd r\<rparr>
        in if indexRec s' > - 1
           then s'\<lparr>flag := signedFlag (signMc s') (Sc0ToPKPiPi C)\<rparr> else s'
      else if \<bar>sint (chargeSigmac s)\<bar> = 2 then
        let r = getMatchedMCRec H particlesMc arrayDaughters (kSigmaCPlusPlus C)
                  [kProton C, - kKPlus C, kPiPlus C, kPiPlus C] True 3;
            s' = s\<lparr>indexRec := fst r, signMc := snd r\<rparr>
        in if indexRec s' > - 1
           then s'\<lparr>flag := signedFlag (signMc s') (ScplusplusToPKPiPi C)\<rparr> else s'
      else s)"

text \<open>The body of the loop over the reconstructed candidates.\<close>

definition recStep ::
  "reco_decay \<Rightarrow> hf_consts \<Rightarrow> mc_particle list \<Rightarrow> cand_sc \<Rightarrow> mc_state \<Rightarrow> mc_state" where
  "recStep H C particlesMc candSigmac s0 =
     (let s = s0\<lparr>indexRec := - 1, signMc := 0, flag := 0, origin := 0\<rparr>;
          candLc = prongLc candSigmac
      in
        if \<not> (\<bar>sint (flagMcMatchRec candLc)\<bar> = push_bit (LcToPKPi C) 1)
        then fillRec s
        else
          let arrayDaughters =
                [prong0Mc candLc, prong1Mc candLc, prong2Mc candLc, prongSoftPi candSigmac];
              s1 = s\<lparr>chargeSigmac := charge candSigmac\<rparr>;
              s2 = matchRec H C particlesMc arrayDaughters s1;
              s3 = checkOrigin H particlesMc s2
          in fillRec s3)"

text \<open>
  The loop over the daughters of a generated particle that passed the first-level check,
  with its \<^verbatim>\<open>continue\<close> and its \<^verbatim>\<open>break\<close>. The second-level call is made on
  \<^verbatim>\<open>particle\<close>, as the source has it.
\<close>

fun daughterLoop ::
  "reco_decay \<Rightarrow> hf_consts \<Rightarrow> mc_particle list \<Rightarrow> int \<Rightarrow> nat \<Rightarrow> int list \<Rightarrow> mc_state \<Rightarrow> mc_state"
  where
  "daughterLoop H C particlesMc particle decayType [] s = s"
| "daughterLoop H C particlesMc particle decayType (daughter # ds) s =
     (if \<bar>pdgCodeAt particlesMc daughter\<bar> \<noteq> kLambdaCPlus C
      then daughterLoop H C particlesMc particle decayType ds s
      else
        let r = isMatchedMCGen H particlesMc particle (kLambdaCPlus C)
                  [kProton C, - kKPlus C, kPiPlus C] True 2;
            s' = s\<lparr>signMc := snd r\<rparr>
        in if fst r then s'\<lparr>flag := signedFlag (signMc s') decayType\<rparr>
           else daughterLoop H C particlesMc particle decayType ds s')"

text \<open>
  The two first-level checks of a generated particle, for the \<open>\<Sigma>c0\<close> and else for the
  \<open>\<Sigma>c++\<close>, each followed by the loop over the daughters.
\<close>

definition matchGen ::
  "reco_decay \<Rightarrow> hf_consts \<Rightarrow> mc_particle list \<Rightarrow> int \<Rightarrow> mc_state \<Rightarrow> mc_state" where
  "matchGen H C particlesMc particle s =
     (let r0 = isMatchedMCGen H particlesMc particle (kSigmaC0 C)
                 [kLambdaCPlus C, kPiMinus C] True 1;
          s0 = s\<lparr>signMc := snd r0\<rparr>
      in
        if fst r0 then
          daughterLoop H C particlesMc particle (Sc0ToPKPiPi C)
            (daughters_as particlesMc particle) s0
        else
          let r1 = isMatchedMCGen H particlesMc particle (kSigmaCPlusPlus C)
                     [kLambdaCPlus C, kPiPlus C] True 1;
              s1 = s0\<lparr>signMc := snd r1\<rparr>
          in if fst r1 then
               daughterLoop H C particlesMc particle (ScplusplusToPKPiPi C)
                 (daughters_as particlesMc particle) s1
             else s1)"

text \<open>The body of the loop over the generated particles.\<close>

definition genStep ::
  "reco_decay \<Rightarrow> hf_consts \<Rightarrow> mc_particle list \<Rightarrow> int \<Rightarrow> mc_state \<Rightarrow> mc_state" where
  "genStep H C particlesMc particle s0 =
     (let s = s0\<lparr>flag := 0, origin := 0\<rparr>;
          s2 = matchGen H C particlesMc particle s;
          s3 = checkOrigin H particlesMc s2
      in fillGen s3)"

text \<open>
  \<^verbatim>\<open>processMc\<close>: the loop over the reconstructed candidates, then the loop over the rows of
  the particle table, on the same local variables. The arguments \<^verbatim>\<open>tracks\<close> and
  \<^verbatim>\<open>LambdacMc\<close> only serve to resolve the index columns, which the records hold resolved.
\<close>

definition recLoop ::
  "reco_decay \<Rightarrow> hf_consts \<Rightarrow> mc_particle list \<Rightarrow> cand_sc list \<Rightarrow> mc_state \<Rightarrow> mc_state" where
  "recLoop H C particlesMc candidatesSigmac s = fold (recStep H C particlesMc) candidatesSigmac s"

definition genLoop ::
  "reco_decay \<Rightarrow> hf_consts \<Rightarrow> mc_particle list \<Rightarrow> mc_state \<Rightarrow> mc_state" where
  "genLoop H C particlesMc s =
     fold (genStep H C particlesMc) (map int [0..<length particlesMc]) s"

definition processMc ::
  "reco_decay \<Rightarrow> hf_consts \<Rightarrow> mc_particle list \<Rightarrow> cand_sc list \<Rightarrow> mc_state" where
  "processMc H C particlesMc candidatesSigmac =
     genLoop H C particlesMc (recLoop H C particlesMc candidatesSigmac mc_init)"

section \<open>The conditions of the candidate creator, named\<close>

text \<open>
  The conditions that \<^verbatim>\<open>process\<close> tests, each under a name, for the statements below. The
  lemmas of the next sections relate them to the code, which does not use them.
\<close>

text \<open>The self-pairing test, on the narrowed indices as the code compares them.\<close>

definition selfPaired :: "cand_lc \<Rightarrow> track \<Rightarrow> bool" where
  "selfPaired candLc trackSoftPi =
     ((ucast (globalIndex trackSoftPi) :: 32 word) = ucast (globalIndex (prong0 candLc))
      \<or> (ucast (globalIndex trackSoftPi) :: 32 word) = ucast (globalIndex (prong1 candLc))
      \<or> (ucast (globalIndex trackSoftPi) :: 32 word) = ucast (globalIndex (prong2 candLc)))"

definition chargeLcOf :: "cand_lc \<Rightarrow> int" where
  "chargeLcOf candLc =
     sint (sign (prong0 candLc)) + sint (sign (prong1 candLc)) + sint (sign (prong2 candLc))"

definition chargeSigmacOf :: "cand_lc \<Rightarrow> track \<Rightarrow> int8" where
  "chargeSigmacOf candLc trackSoftPi = word_of_int (chargeLcOf candLc + sint (sign trackSoftPi))"

definition validCharge :: "int8 \<Rightarrow> bool" where
  "validCharge c = (\<bar>sint c\<bar> = 0 \<or> \<bar>sint c\<bar> = 2)"

text \<open>A track that reaches the fill call for a given \<open>\<Lambda>c\<close> candidate.\<close>

definition qualifiesTrack :: "hf_env \<Rightarrow> cand_lc \<Rightarrow> track \<Rightarrow> bool" where
  "qualifiesTrack E candLc t =
     (IsSelected E t \<and> \<not> selfPaired candLc t \<and> validCharge (chargeSigmacOf candLc t))"

text \<open>The two mass-window checks.\<close>

definition passPKPi :: "hf_env \<Rightarrow> config \<Rightarrow> cand_lc \<Rightarrow> bool" where
  "passPKPi E cfg candLc =
     (isSelLcToPKPi candLc \<ge> 1
      \<and> \<bar>invMassLcToPKPi E candLc - massLambdaCPlus E\<bar> \<le> mPKPiCandLcMax cfg)"

definition passPiKP :: "hf_env \<Rightarrow> config \<Rightarrow> cand_lc \<Rightarrow> bool" where
  "passPiKP E cfg candLc =
     (isSelLcToPiKP candLc \<ge> 1
      \<and> \<bar>invMassLcToPiKP E candLc - massLambdaCPlus E\<bar> \<le> mPiKPCandLcMax cfg)"

definition statusOf :: "bool \<Rightarrow> int" where
  "statusOf b = (if b then 1 else 0)"

definition decayTypeFlagged :: "hf_consts \<Rightarrow> cand_lc \<Rightarrow> bool" where
  "decayTypeFlagged C candLc = ((uint (hfflag candLc) AND push_bit (LcToPKPi C) 1) \<noteq> 0)"

definition rapidityAccepted :: "hf_env \<Rightarrow> config \<Rightarrow> cand_lc \<Rightarrow> bool" where
  "rapidityAccepted E cfg candLc = (yCandLcMax cfg < 0 \<or> \<bar>yLc E candLc\<bar> \<le> yCandLcMax cfg)"

text \<open>A candidate for which the loop over tracks is entered.\<close>

definition qualifiesLc :: "hf_consts \<Rightarrow> hf_env \<Rightarrow> config \<Rightarrow> cand_lc \<Rightarrow> bool" where
  "qualifiesLc C E cfg candLc =
     (decayTypeFlagged C candLc \<and> rapidityAccepted E cfg candLc
      \<and> (passPKPi E cfg candLc \<or> passPiKP E cfg candLc))"

text \<open>The row that the fill call writes for a pair.\<close>

definition scRow :: "cand_lc \<Rightarrow> int \<Rightarrow> int \<Rightarrow> track \<Rightarrow> sc_row" where
  "scRow candLc statusPKPi statusPiKP trackSoftPi =
     \<lparr>rowCollisionId = collisionId candLc,
      rowPxLc = pxLc candLc, rowPyLc = pyLc candLc, rowPzLc = pzLc candLc,
      rowPxSoftPi = px trackSoftPi, rowPySoftPi = py trackSoftPi, rowPzSoftPi = pz trackSoftPi,
      rowLcGlobalIndex = globalIndexLc candLc,
      rowSoftPiGlobalIndex = globalIndex trackSoftPi,
      rowHfflag = hfflag candLc,
      rowCharge = chargeSigmacOf candLc trackSoftPi,
      statusSpreadMinvPKPiFromPDG = statusPKPi,
      statusSpreadMinvPiKPFromPDG = statusPiKP\<rparr>"

definition pairRows :: "hf_env \<Rightarrow> cand_lc \<Rightarrow> int \<Rightarrow> int \<Rightarrow> track list \<Rightarrow> sc_row list" where
  "pairRows E candLc statusPKPi statusPiKP tracks =
     map (scRow candLc statusPKPi statusPiKP) (filter (qualifiesTrack E candLc) tracks)"

definition candRows :: "hf_env \<Rightarrow> config \<Rightarrow> track list \<Rightarrow> cand_lc \<Rightarrow> sc_row list" where
  "candRows E cfg tracks candLc =
     pairRows E candLc (statusOf (passPKPi E cfg candLc)) (statusOf (passPiKP E cfg candLc)) tracks"

text \<open>
  A track whose pair with a given \<open>\<Lambda>c\<close> candidate reaches the charge check and fails it, and
  the messages that the loop over tracks logs for the candidate.
\<close>

definition offendsCharge :: "hf_env \<Rightarrow> cand_lc \<Rightarrow> track \<Rightarrow> bool" where
  "offendsCharge E candLc t =
     (IsSelected E t \<and> \<not> selfPaired candLc t \<and> \<not> validCharge (chargeSigmacOf candLc t))"

definition pairLogs :: "hf_env \<Rightarrow> cand_lc \<Rightarrow> track list \<Rightarrow> (int \<times> int) list" where
  "pairLogs E candLc tracks =
     map (\<lambda>t. (chargeLcOf candLc, sint (sign t))) (filter (offendsCharge E candLc) tracks)"

text \<open>The numbers of the completeness property: qualifying candidates, and tracks per candidate.\<close>

definition numQualifyingLc :: "hf_consts \<Rightarrow> hf_env \<Rightarrow> config \<Rightarrow> cand_lc list \<Rightarrow> nat" where
  "numQualifyingLc C E cfg candidates = length (filter (qualifiesLc C E cfg) candidates)"

definition numQualifyingTracks :: "hf_env \<Rightarrow> cand_lc \<Rightarrow> track list \<Rightarrow> nat" where
  "numQualifyingTracks E candLc tracks = length (filter (qualifiesTrack E candLc) tracks)"

definition numRows :: "hf_consts \<Rightarrow> hf_env \<Rightarrow> config \<Rightarrow> track list \<Rightarrow> cand_lc list \<Rightarrow> nat" where
  "numRows C E cfg tracks candidates =
     length (rowScCandidates (process C E cfg tracks candidates out0))"

section \<open>The label of one row\<close>

text \<open>The label that each loop gives one row, from the initial values of the local variables.\<close>

definition recLabel ::
  "reco_decay \<Rightarrow> hf_consts \<Rightarrow> mc_particle list \<Rightarrow> cand_sc \<Rightarrow> int8 \<times> int8" where
  "recLabel H C particlesMc candSigmac =
     (flag (recStep H C particlesMc candSigmac mc_init),
      origin (recStep H C particlesMc candSigmac mc_init))"

definition genLabel ::
  "reco_decay \<Rightarrow> hf_consts \<Rightarrow> mc_particle list \<Rightarrow> int \<Rightarrow> int \<Rightarrow> int8 \<times> int8" where
  "genLabel H C particlesMc indexRecLeft particle =
     (flag (genStep H C particlesMc particle (mc_init\<lparr>indexRec := indexRecLeft\<rparr>)),
      origin (genStep H C particlesMc particle (mc_init\<lparr>indexRec := indexRecLeft\<rparr>)))"

section \<open>The matching helpers, modelled from the specification\<close>

text \<open>
  The theorems on \<^verbatim>\<open>processMc\<close> hold for every value of the three helpers. The examples
  need helpers that compute; these follow the specification.
\<close>

text \<open>
  Modelled from the spec: the descent through the decay that \<^verbatim>\<open>RecoDecay::isMatchedMCGen\<close>
  makes, whose code is not in the file. The particles that a decay ends in, followed down for
  at most the given number of further levels: a particle is final when it has no daughters or
  is of one of the expected species.
\<close>

fun finalDaughters :: "mc_particle list \<Rightarrow> int list \<Rightarrow> nat \<Rightarrow> int \<Rightarrow> int list" where
  "finalDaughters particlesMc expected 0 i = [i]"
| "finalDaughters particlesMc expected (Suc n) i =
     (case rowAt particlesMc i of
        None \<Rightarrow> []
      | Some p \<Rightarrow>
          if daughtersIds p = [] \<or> \<bar>pdgCode p\<bar> \<in> set (map abs expected) then [i]
          else concat (map (finalDaughters particlesMc expected n) (daughtersIds p)))"

text \<open>
  Modelled from the spec: \<^verbatim>\<open>RecoDecay::isMatchedMCGen\<close>, whose code is not in the file.
  Section 4.5 of the specification: the particle is of the expected species, or of its
  antiparticle where charge conjugation is allowed, and its daughters, followed down for at
  most \<open>depthMax\<close> levels, are of the expected signed species, all conjugated for the
  antiparticle. The second component is the sign of the match, 0 for none.
\<close>

definition isMatchedMCGen_spec ::
  "mc_particle list \<Rightarrow> int \<Rightarrow> int \<Rightarrow> int list \<Rightarrow> bool \<Rightarrow> nat \<Rightarrow> bool \<times> int8" where
  "isMatchedMCGen_spec particlesMc candidate pdgParticle arrPdgDaughters acceptAntiParticles depthMax =
     (case rowAt particlesMc candidate of
        None \<Rightarrow> (False, 0)
      | Some p \<Rightarrow>
          let sgn = (if pdgCode p = pdgParticle then 1
                     else if acceptAntiParticles \<and> pdgCode p = - pdgParticle then - 1
                     else 0 :: int)
          in
            if sgn = 0 then (False, 0)
            else
              let ds = concat (map (finalDaughters particlesMc arrPdgDaughters (depthMax - 1))
                                 (daughtersIds p))
              in if sort (map (pdgCodeAt particlesMc) ds) = sort (map (\<lambda>c. sgn * c) arrPdgDaughters)
                 then (True, word_of_int sgn) else (False, 0))"

text \<open>
  Modelled from the spec: the walk up the ancestry that \<^verbatim>\<open>RecoDecay::getMatchedMCRec\<close> and
  \<^verbatim>\<open>RecoDecay::getCharmHadronOrigin\<close> make, whose code is not in the file. The mothers
  of a particle, nearest first, for at most the given number of levels.
\<close>

fun ancestorsUpTo :: "mc_particle list \<Rightarrow> nat \<Rightarrow> int \<Rightarrow> int list" where
  "ancestorsUpTo particlesMc 0 i = []"
| "ancestorsUpTo particlesMc (Suc n) i =
     (case rowAt particlesMc i of
        None \<Rightarrow> []
      | Some p \<Rightarrow>
          (case mothersIds p of
             [] \<Rightarrow> []
           | m # ms \<Rightarrow> m # ancestorsUpTo particlesMc n m))"

text \<open>
  Modelled from the spec: \<^verbatim>\<open>RecoDecay::getMatchedMCRec\<close>, whose code is not in the file.
  Section 4.4, step 3 of the specification: the generated particles of the daughter tracks
  trace, within \<open>depthMax\<close> levels of mothers, to one common ancestor of the expected species
  (or its antiparticle), and their species are the expected signed ones, all conjugated for
  the antiparticle. The result is the index of the ancestor, or -1, and the sign of the match.
\<close>

definition getMatchedMCRec_spec ::
  "mc_particle list \<Rightarrow> track_mc list \<Rightarrow> int \<Rightarrow> int list \<Rightarrow> bool \<Rightarrow> nat \<Rightarrow> int \<times> int8" where
  "getMatchedMCRec_spec particlesMc arrDaughters pdgMother arrPdgDaughters acceptAntiParticles depthMax =
     (let ids = map mcParticleId arrDaughters;
          found = map (\<lambda>i. find (\<lambda>m. pdgCodeAt particlesMc m = pdgMother
                                     \<or> (acceptAntiParticles \<and> pdgCodeAt particlesMc m = - pdgMother))
                              (ancestorsUpTo particlesMc depthMax i)) ids
      in
        case found of
          Some m # rest \<Rightarrow>
            let sgn = (if pdgCodeAt particlesMc m = pdgMother then 1 else - 1 :: int)
            in
              if rest = replicate (length rest) (Some m)
                 \<and> sort (map (pdgCodeAt particlesMc) ids) = sort (map (\<lambda>c. sgn * c) arrPdgDaughters)
              then (m, word_of_int sgn) else (- 1, 0)
        | _ \<Rightarrow> (- 1, 0))"

text \<open>
  Modelled from the spec: the test for a beauty particle inside
  \<^verbatim>\<open>RecoDecay::getCharmHadronOrigin\<close>, whose code is not in the file. The glossary of the
  specification names beauty particles as the longer-lived ancestors; they are recognised by
  the digits of the PDG code.
\<close>

definition isBeauty :: "int \<Rightarrow> bool" where
  "isBeauty c = (\<bar>c\<bar> = 5 \<or> (\<bar>c\<bar> div 100) mod 10 = 5 \<or> (\<bar>c\<bar> div 1000) mod 10 = 5)"

text \<open>
  Modelled from the spec: \<^verbatim>\<open>RecoDecay::getCharmHadronOrigin\<close>, whose code is not in the file.
  Section 4.4, step 4 and the glossary of the specification: the origin is found by walking
  the ancestry of the particle, and is non-prompt when the particle comes from the decay of a
  beauty particle. The codes 1 (prompt) and 2 (non-prompt) are those of the O2Physics header.
\<close>

definition getCharmHadronOrigin_spec :: "mc_particle list \<Rightarrow> int \<Rightarrow> int" where
  "getCharmHadronOrigin_spec particlesMc particle =
     (if filter (\<lambda>m. isBeauty (pdgCodeAt particlesMc m))
           (ancestorsUpTo particlesMc (length particlesMc) particle) = []
      then 1 else 2)"

text \<open>The three modelled helpers together.\<close>

definition recoDecay_spec :: reco_decay where
  "recoDecay_spec = \<lparr>getMatchedMCRec = getMatchedMCRec_spec,
                     isMatchedMCGen = isMatchedMCGen_spec,
                     getCharmHadronOrigin = getCharmHadronOrigin_spec\<rparr>"

section \<open>Example events\<close>

text \<open>
  The events of the specification's scenarios. The constants have the values of the O2Physics
  headers. The example helpers give every candidate the rapidity 0.2, the candidate with global
  index 2 a mass outside the window, and let the track cuts reject track 13.
\<close>

definition o2 :: hf_consts where
  "o2 = \<lparr>LcToPKPi = 1, Sc0ToPKPiPi = 0, ScplusplusToPKPiPi = 1,
         kLambdaCPlus = 4122, kSigmaC0 = 4112, kSigmaCPlusPlus = 4222,
         kProton = 2212, kKPlus = 321, kPiPlus = 211, kPiMinus = - 211\<rparr>"

definition exEnv :: hf_env where
  "exEnv = \<lparr>massLambdaCPlus = 2.28646, yLc = (\<lambda>candLc. 0.2),
            invMassLcToPKPi = (\<lambda>candLc. if globalIndexLc candLc = 2 then 2.40 else 2.29),
            invMassLcToPiKP = (\<lambda>candLc. 2.45),
            IsSelected = (\<lambda>t. globalIndex t \<noteq> 13)\<rparr>"

text \<open>The default values of the configurables.\<close>

definition exCfg :: config where
  "exCfg = \<lparr>selectionFlagLc = 1, yCandLcMax = - 1, mPKPiCandLcMax = 0.03, mPiKPCandLcMax = 0.03\<rparr>"

definition trk :: "64 word \<Rightarrow> 16 word \<Rightarrow> track" where
  "trk i q = \<lparr>globalIndex = i, sign = q, px = 0.3, py = 0.1, pz = 0.2\<rparr>"

definition lc :: "64 word \<Rightarrow> track \<Rightarrow> track \<Rightarrow> track \<Rightarrow> cand_lc" where
  "lc i p0 p1 p2 =
     \<lparr>collisionId = 0, globalIndexLc = i, pxLc = 1.5, pyLc = 0.5, pzLc = 0.7,
      prong0 = p0, prong1 = p1, prong2 = p2,
      hfflag = 2, isSelLcToPKPi = 1, isSelLcToPiKP = 0\<rparr>"

text \<open>
  \<open>lcA\<close> is the candidate of scenarios A and B, \<open>lcC\<close> the one of scenario C. \<open>lcB\<close> shares two
  prongs with \<open>lcA\<close>; its third prong is track 13. The prongs of \<open>lcPPP\<close> are all positive.
\<close>

definition lcA :: cand_lc where
  "lcA = lc 0 (trk 10 1) (trk 11 (- 1)) (trk 12 1)"

definition lcB :: cand_lc where
  "lcB = lc 1 (trk 10 1) (trk 11 (- 1)) (trk 13 1)"

definition lcC :: cand_lc where
  "lcC = lc 2 (trk 10 1) (trk 11 (- 1)) (trk 12 1)"

definition lcPPP :: cand_lc where
  "lcPPP = lc 3 (trk 10 1) (trk 11 1) (trk 12 1)"

text \<open>
  Scenario D: a true \<open>\<Sigma>c++ \<rightarrow> \<Lambda>c+ \<pi>+\<close> with \<open>\<Lambda>c+ \<rightarrow> p K- \<pi>+\<close>. Row 0 is the \<open>\<Sigma>c++\<close>, row 1 the
  \<open>\<Lambda>c+\<close>, row 2 the soft pion, rows 3 to 5 the proton, the kaon and the pion.
\<close>

definition scenarioD :: "mc_particle list" where
  "scenarioD =
     [\<lparr>pdgCode = 4222, mothersIds = [], daughtersIds = [1, 2]\<rparr>,
      \<lparr>pdgCode = 4122, mothersIds = [0], daughtersIds = [3, 4, 5]\<rparr>,
      \<lparr>pdgCode = 211, mothersIds = [0], daughtersIds = []\<rparr>,
      \<lparr>pdgCode = 2212, mothersIds = [1], daughtersIds = []\<rparr>,
      \<lparr>pdgCode = - 321, mothersIds = [1], daughtersIds = []\<rparr>,
      \<lparr>pdgCode = 211, mothersIds = [1], daughtersIds = []\<rparr>]"

text \<open>
  A reconstructed candidate on the tracks of scenario D, by the matching flag of its
  \<open>\<Lambda>c\<close> and its stored charge.
\<close>

definition scD :: "int8 \<Rightarrow> int8 \<Rightarrow> cand_sc" where
  "scD flagLc q =
     \<lparr>prongLc = \<lparr>prong0Mc = \<lparr>mcParticleId = 3\<rparr>, prong1Mc = \<lparr>mcParticleId = 4\<rparr>,
                  prong2Mc = \<lparr>mcParticleId = 5\<rparr>, flagMcMatchRec = flagLc\<rparr>,
      prongSoftPi = \<lparr>mcParticleId = 2\<rparr>,
      charge = q\<rparr>"

section \<open>What the loops of the candidate creator write\<close>

lemmas ex_defs = o2_def trk_def lc_def exEnv_def exCfg_def lcA_def lcB_def lcC_def lcPPP_def

lemmas q_defs = qualifiesLc_def qualifiesTrack_def decayTypeFlagged_def rapidityAccepted_def
  passPKPi_def passPiKP_def selfPaired_def validCharge_def chargeSigmacOf_def chargeLcOf_def
  statusOf_def

lemma trackStep_rows:
  "rowScCandidates (trackStep E candLc a b t s)
   = rowScCandidates s @ (if qualifiesTrack E candLc t then [scRow candLc a b t] else [])"
  by (simp add: trackStep_def LOG_fatal_def qualifiesTrack_def selfPaired_def validCharge_def
      chargeSigmacOf_def chargeLcOf_def scRow_def Let_def)

lemma trackLoop_rows:
  "rowScCandidates (fold (trackStep E candLc a b) tracks s)
   = rowScCandidates s @ pairRows E candLc a b tracks"
proof (induction tracks arbitrary: s)
  case Nil
  show ?case by (simp add: pairRows_def)
next
  case (Cons t ts)
  show ?case
    by (simp add: Cons.IH trackStep_rows) (simp add: pairRows_def)
qed

lemma candStep_rows:
  "rowScCandidates (candStep C E cfg tracks candLc s)
   = rowScCandidates s @ (if qualifiesLc C E cfg candLc then candRows E cfg tracks candLc else [])"
  by (auto simp add: candStep_def qualifiesLc_def decayTypeFlagged_def rapidityAccepted_def
      passPKPi_def passPiKP_def Let_def trackLoop_rows candRows_def statusOf_def)

lemma process_rows:
  "rowScCandidates (process C E cfg tracks candidates s)
   = rowScCandidates s
     @ concat (map (candRows E cfg tracks) (filter (qualifiesLc C E cfg) candidates))"
  unfolding process_def
  by (induction candidates arbitrary: s) (simp_all add: candStep_rows)

lemma process_row_pair:
  assumes "r \<in> set (rowScCandidates (process C E cfg tracks candidates out0))"
  shows "\<exists>candLc \<in> set candidates. \<exists>t \<in> set tracks.
          qualifiesLc C E cfg candLc \<and> qualifiesTrack E candLc t
          \<and> r = scRow candLc (statusOf (passPKPi E cfg candLc))
                  (statusOf (passPiKP E cfg candLc)) t"
  using assms by (auto simp add: process_rows candRows_def pairRows_def out0_def)

lemma validCharge_values: "validCharge c \<Longrightarrow> sint c = - 2 \<or> sint c = 0 \<or> sint c = 2"
  by (auto simp add: validCharge_def abs_if split: if_splits)

lemma selfPaired_if_same_index:
  "globalIndex t = globalIndex (prong0 candLc) \<or> globalIndex t = globalIndex (prong1 candLc)
     \<or> globalIndex t = globalIndex (prong2 candLc) \<Longrightarrow> selfPaired candLc t"
  by (auto simp add: selfPaired_def)

lemma trackStep_skip_selfPaired: "selfPaired candLc t \<Longrightarrow> trackStep E candLc a b t s = s"
  by (simp add: trackStep_def selfPaired_def Let_def)

lemma candStep_skip_mass:
  "\<not> passPKPi E cfg candLc \<Longrightarrow> \<not> passPiKP E cfg candLc
   \<Longrightarrow> candStep C E cfg tracks candLc s = s"
  by (auto simp add: candStep_def passPKPi_def passPiKP_def Let_def)

lemma numRows_sum:
  "numRows C E cfg tracks candidates
   = sum_list (map (\<lambda>candLc. numQualifyingTracks E candLc tracks)
       (filter (qualifiesLc C E cfg) candidates))"
proof -
  have "length (candRows E cfg tracks candLc) = numQualifyingTracks E candLc tracks" for candLc
    by (simp add: candRows_def pairRows_def numQualifyingTracks_def)
  then show ?thesis
    by (simp add: numRows_def process_rows out0_def length_concat comp_def)
qed

lemma numQualifyingTracks_append:
  "numQualifyingTracks E candLc tracks \<le> numQualifyingTracks E candLc (tracks @ ts)"
  by (simp add: numQualifyingTracks_def)

lemma numRows_mono:
  "numRows C E cfg tracks candidates \<le> numRows C E cfg (tracks @ ts) (candidates @ cs)"
proof -
  let ?f = "\<lambda>candLc. numQualifyingTracks E candLc tracks"
  let ?g = "\<lambda>candLc. numQualifyingTracks E candLc (tracks @ ts)"
  let ?q = "filter (qualifiesLc C E cfg)"
  have "sum_list (map ?f (?q candidates)) \<le> sum_list (map ?g (?q candidates))"
    by (rule sum_list_mono) (rule numQualifyingTracks_append)
  also have "\<dots> \<le> sum_list (map ?g (?q (candidates @ cs)))"
    by simp
  finally show ?thesis
    by (simp only: numRows_sum)
qed

lemma numRows_uniform:
  assumes "\<forall>candLc \<in> set candidates.
             qualifiesLc C E cfg candLc \<longrightarrow> numQualifyingTracks E candLc tracks = N"
  shows "numRows C E cfg tracks candidates = numQualifyingLc C E cfg candidates * N"
proof -
  let ?qs = "filter (qualifiesLc C E cfg) candidates"
  have eq: "map (\<lambda>candLc. numQualifyingTracks E candLc tracks) ?qs = map (\<lambda>candLc. N) ?qs"
    using assms by (intro map_cong) auto
  have "numRows C E cfg tracks candidates
        = sum_list (map (\<lambda>candLc. numQualifyingTracks E candLc tracks) ?qs)"
    by (rule numRows_sum)
  also have "\<dots> = sum_list (map (\<lambda>candLc. N) ?qs)"
    by (simp only: eq)
  also have "\<dots> = length ?qs * N"
    by (simp add: sum_list_triv)
  finally show ?thesis
    by (simp only: numQualifyingLc_def)
qed

text \<open>
  With a selection threshold of at most 1 (the default), the candidates that the filter
  expression removes would be skipped by the mass-window check anyway.
\<close>

lemma process_filtered:
  assumes "selectionFlagLc cfg \<le> 1"
  shows "rowScCandidates (process C E cfg tracks (filter (filterSelectCandidateLc cfg) candidates) s)
         = rowScCandidates (process C E cfg tracks candidates s)"
proof -
  have "filterSelectCandidateLc cfg candLc \<and> qualifiesLc C E cfg candLc
        \<longleftrightarrow> qualifiesLc C E cfg candLc" for candLc
    using assms
    by (auto simp add: qualifiesLc_def passPKPi_def passPiKP_def filterSelectCandidateLc_def)
  then show ?thesis
    by (simp add: process_rows)
qed

subsection \<open>The scenarios of the specification\<close>

lemma scenarioA:
  "rowScCandidates (process o2 exEnv exCfg [trk 20 (- 1), trk 21 1] [lcA] out0)
   = [scRow lcA 1 0 (trk 20 (- 1)), scRow lcA 1 0 (trk 21 1)]"
  by (simp add: process_rows candRows_def pairRows_def out0_def q_defs ex_defs)

lemma scenarioA_charges:
  "map (\<lambda>r. sint (rowCharge r))
     (rowScCandidates (process o2 exEnv exCfg [trk 20 (- 1), trk 21 1] [lcA] out0))
   = [0, 2]"
  by (simp only: scenarioA) (simp add: scRow_def q_defs ex_defs)

lemma scenarioB:
  "rowScCandidates (process o2 exEnv exCfg [trk 10 1, trk 21 1] [lcA] out0)
   = [scRow lcA 1 0 (trk 21 1)]"
  by (simp add: process_rows candRows_def pairRows_def out0_def q_defs ex_defs)

lemma scenarioC:
  "rowScCandidates (process o2 exEnv exCfg [trk 20 (- 1), trk 21 1] [lcC] out0) = []"
  by (simp add: process_rows candRows_def pairRows_def out0_def q_defs ex_defs)

lemma trackStep_log:
  "logFatal (trackStep E candLc a b t s)
   = logFatal s @ (if offendsCharge E candLc t then [(chargeLcOf candLc, sint (sign t))] else [])"
  by (simp add: trackStep_def LOG_fatal_def offendsCharge_def selfPaired_def validCharge_def
      chargeSigmacOf_def chargeLcOf_def Let_def)

lemma trackLoop_log:
  "logFatal (fold (trackStep E candLc a b) tracks s) = logFatal s @ pairLogs E candLc tracks"
proof (induction tracks arbitrary: s)
  case Nil
  show ?case by (simp add: pairLogs_def)
next
  case (Cons t ts)
  show ?case
    by (simp add: Cons.IH trackStep_log) (simp add: pairLogs_def)
qed

lemma candStep_log:
  "logFatal (candStep C E cfg tracks candLc s)
   = logFatal s @ (if qualifiesLc C E cfg candLc then pairLogs E candLc tracks else [])"
  by (auto simp add: candStep_def qualifiesLc_def decayTypeFlagged_def rapidityAccepted_def
      passPKPi_def passPiKP_def Let_def trackLoop_log)

lemma process_log:
  "logFatal (process C E cfg tracks candidates s)
   = logFatal s
     @ concat (map (\<lambda>candLc. pairLogs E candLc tracks) (filter (qualifiesLc C E cfg) candidates))"
  unfolding process_def
  by (induction candidates arbitrary: s) (simp_all add: candStep_log)

lemma trackStep_invalid_charge:
  assumes "IsSelected E t" and "\<not> selfPaired candLc t"
    and "\<bar>sint (chargeSigmacOf candLc t)\<bar> \<noteq> 0" and "\<bar>sint (chargeSigmacOf candLc t)\<bar> \<noteq> 2"
  shows "trackStep E candLc a b t s
         = s\<lparr>logFatal := logFatal s @ [(chargeLcOf candLc, sint (sign t))]\<rparr>"
  using assms
  by (simp add: trackStep_def LOG_fatal_def selfPaired_def chargeSigmacOf_def chargeLcOf_def
      Let_def)

lemma ce_counts:
  "numRows o2 exEnv exCfg [trk 10 1, trk 11 (- 1), trk 12 1, trk 20 (- 1)] [lcA, lcB] = 3"
  "numQualifyingLc o2 exEnv exCfg [lcA, lcB] = 2"
  "numQualifyingTracks exEnv lcA [trk 10 1, trk 11 (- 1), trk 12 1, trk 20 (- 1)] = 1"
  "numQualifyingTracks exEnv lcB [trk 10 1, trk 11 (- 1), trk 12 1, trk 20 (- 1)] = 2"
  by (simp_all add: numRows_sum numQualifyingLc_def numQualifyingTracks_def q_defs ex_defs)

section \<open>What the loops of the matching write\<close>

lemma checkOrigin_frame:
  "flag (checkOrigin H particlesMc s) = flag s"
  "indexRec (checkOrigin H particlesMc s) = indexRec s"
  "rowMCMatchScRec (checkOrigin H particlesMc s) = rowMCMatchScRec s"
  "rowMCMatchScGen (checkOrigin H particlesMc s) = rowMCMatchScGen s"
  by (simp_all add: checkOrigin_def)

lemma checkOrigin_origin:
  "origin (checkOrigin H particlesMc s)
   = (if flag s \<noteq> 0 then word_of_int (getCharmHadronOrigin H particlesMc (indexRec s))
      else origin s)"
  by (simp add: checkOrigin_def)

lemma fillRec_frame:
  "flag (fillRec s) = flag s" "origin (fillRec s) = origin s" "indexRec (fillRec s) = indexRec s"
  "rowMCMatchScGen (fillRec s) = rowMCMatchScGen s"
  "rowMCMatchScRec (fillRec s) = rowMCMatchScRec s @ [(flag s, origin s)]"
  by (simp_all add: fillRec_def)

lemma fillGen_frame:
  "flag (fillGen s) = flag s" "origin (fillGen s) = origin s" "indexRec (fillGen s) = indexRec s"
  "rowMCMatchScRec (fillGen s) = rowMCMatchScRec s"
  "rowMCMatchScGen (fillGen s) = rowMCMatchScGen s @ [(flag s, origin s)]"
  by (simp_all add: fillGen_def)

lemma matchRec_frame:
  "origin (matchRec H C particlesMc arr s) = origin s"
  "rowMCMatchScRec (matchRec H C particlesMc arr s) = rowMCMatchScRec s"
  "rowMCMatchScGen (matchRec H C particlesMc arr s) = rowMCMatchScGen s"
  by (simp_all add: matchRec_def Let_def)

lemma matchRec_cong:
  assumes "chargeSigmac s = chargeSigmac s'" and "flag s = flag s'"
    and "indexRec s = indexRec s'"
  shows "flag (matchRec H C particlesMc arr s) = flag (matchRec H C particlesMc arr s')"
    and "indexRec (matchRec H C particlesMc arr s) = indexRec (matchRec H C particlesMc arr s')"
  using assms by (simp_all add: matchRec_def Let_def)

text \<open>The state in which a reconstructed candidate is matched, and what is filled from it.\<close>

lemma recStep_unmatched:
  assumes "\<bar>sint (flagMcMatchRec (prongLc candSigmac))\<bar> \<noteq> push_bit (LcToPKPi C) 1"
  shows "recStep H C particlesMc candSigmac s
         = s\<lparr>indexRec := - 1, signMc := 0, flag := 0, origin := 0,
              rowMCMatchScRec := rowMCMatchScRec s @ [(0, 0)]\<rparr>"
  using assms by (simp add: recStep_def fillRec_def Let_def)

lemma recStep_matched:
  assumes "\<bar>sint (flagMcMatchRec (prongLc candSigmac))\<bar> = push_bit (LcToPKPi C) 1"
  shows "recStep H C particlesMc candSigmac s
         = fillRec (checkOrigin H particlesMc
             (matchRec H C particlesMc
                [prong0Mc (prongLc candSigmac), prong1Mc (prongLc candSigmac),
                 prong2Mc (prongLc candSigmac), prongSoftPi candSigmac]
                (s\<lparr>indexRec := - 1, signMc := 0, flag := 0, origin := 0,
                    chargeSigmac := charge candSigmac\<rparr>)))"
  using assms by (simp add: recStep_def Let_def)

lemma recStep_other_charge:
  assumes "\<bar>sint (flagMcMatchRec (prongLc candSigmac))\<bar> = push_bit (LcToPKPi C) 1"
    and "charge candSigmac \<noteq> 0" and "\<bar>sint (charge candSigmac)\<bar> \<noteq> 2"
  shows "recStep H C particlesMc candSigmac s
         = s\<lparr>indexRec := - 1, signMc := 0, flag := 0, origin := 0,
              chargeSigmac := charge candSigmac,
              rowMCMatchScRec := rowMCMatchScRec s @ [(0, 0)]\<rparr>"
  using assms(2,3)
  by (simp add: recStep_matched [OF assms(1)] matchRec_def checkOrigin_def fillRec_def)

lemma recStep_label:
  "flag (recStep H C particlesMc candSigmac s) = flag (recStep H C particlesMc candSigmac s')"
  "origin (recStep H C particlesMc candSigmac s) = origin (recStep H C particlesMc candSigmac s')"
  "indexRec (recStep H C particlesMc candSigmac s)
   = indexRec (recStep H C particlesMc candSigmac s')"
proof -
  let ?arr = "[prong0Mc (prongLc candSigmac), prong1Mc (prongLc candSigmac),
               prong2Mc (prongLc candSigmac), prongSoftPi candSigmac]"
  let ?r = "\<lambda>s. s\<lparr>indexRec := - 1, signMc := 0, flag := 0, origin := 0,
                    chargeSigmac := charge candSigmac\<rparr>"
  have f: "flag (matchRec H C particlesMc ?arr (?r s)) = flag (matchRec H C particlesMc ?arr (?r s'))"
    and i: "indexRec (matchRec H C particlesMc ?arr (?r s))
            = indexRec (matchRec H C particlesMc ?arr (?r s'))"
    by (rule matchRec_cong; simp)+
  have o: "origin (matchRec H C particlesMc ?arr (?r s)) = 0"
    "origin (matchRec H C particlesMc ?arr (?r s')) = 0"
    by (simp_all add: matchRec_frame)
  show "flag (recStep H C particlesMc candSigmac s) = flag (recStep H C particlesMc candSigmac s')"
  proof (cases "\<bar>sint (flagMcMatchRec (prongLc candSigmac))\<bar> = push_bit (LcToPKPi C) 1")
    case True
    show ?thesis
      by (simp only: recStep_matched [OF True] fillRec_frame checkOrigin_frame f)
  next
    case False
    show ?thesis
      by (simp add: recStep_unmatched [OF False])
  qed
  show "origin (recStep H C particlesMc candSigmac s)
        = origin (recStep H C particlesMc candSigmac s')"
  proof (cases "\<bar>sint (flagMcMatchRec (prongLc candSigmac))\<bar> = push_bit (LcToPKPi C) 1")
    case True
    show ?thesis
      by (simp only: recStep_matched [OF True] fillRec_frame checkOrigin_origin f i o)
  next
    case False
    show ?thesis
      by (simp add: recStep_unmatched [OF False])
  qed
  show "indexRec (recStep H C particlesMc candSigmac s)
        = indexRec (recStep H C particlesMc candSigmac s')"
  proof (cases "\<bar>sint (flagMcMatchRec (prongLc candSigmac))\<bar> = push_bit (LcToPKPi C) 1")
    case True
    show ?thesis
      by (simp only: recStep_matched [OF True] fillRec_frame checkOrigin_frame i)
  next
    case False
    show ?thesis
      by (simp add: recStep_unmatched [OF False])
  qed
qed

lemma recStep_rows:
  "rowMCMatchScRec (recStep H C particlesMc candSigmac s)
   = rowMCMatchScRec s @ [recLabel H C particlesMc candSigmac]"
proof -
  have "rowMCMatchScRec (recStep H C particlesMc candSigmac s)
        = rowMCMatchScRec s @ [(flag (recStep H C particlesMc candSigmac s),
                                origin (recStep H C particlesMc candSigmac s))]"
  proof (cases "\<bar>sint (flagMcMatchRec (prongLc candSigmac))\<bar> = push_bit (LcToPKPi C) 1")
    case True
    show ?thesis
      by (simp add: recStep_matched [OF True] fillRec_frame checkOrigin_frame matchRec_frame)
  next
    case False
    show ?thesis
      by (simp add: recStep_unmatched [OF False])
  qed
  also have "\<dots> = rowMCMatchScRec s @ [recLabel H C particlesMc candSigmac]"
    by (simp only: recLabel_def recStep_label [of H C particlesMc candSigmac s mc_init])
  finally show ?thesis .
qed

lemma recStep_gen_rows:
  "rowMCMatchScGen (recStep H C particlesMc candSigmac s) = rowMCMatchScGen s"
proof (cases "\<bar>sint (flagMcMatchRec (prongLc candSigmac))\<bar> = push_bit (LcToPKPi C) 1")
  case True
  show ?thesis
    by (simp add: recStep_matched [OF True] fillRec_frame checkOrigin_frame matchRec_frame)
next
  case False
  show ?thesis
    by (simp add: recStep_unmatched [OF False])
qed

lemma recLoop_rows:
  "rowMCMatchScRec (recLoop H C particlesMc candidatesSigmac s)
   = rowMCMatchScRec s @ map (recLabel H C particlesMc) candidatesSigmac"
  unfolding recLoop_def
  by (induction candidatesSigmac arbitrary: s) (simp_all add: recStep_rows)

lemma recLoop_gen_rows:
  "rowMCMatchScGen (recLoop H C particlesMc candidatesSigmac s) = rowMCMatchScGen s"
  unfolding recLoop_def
  by (induction candidatesSigmac arbitrary: s) (simp_all add: recStep_gen_rows)

lemma daughterLoop_frame:
  "indexRec (daughterLoop H C particlesMc particle decayType ds s) = indexRec s"
  "origin (daughterLoop H C particlesMc particle decayType ds s) = origin s"
  "rowMCMatchScRec (daughterLoop H C particlesMc particle decayType ds s) = rowMCMatchScRec s"
  "rowMCMatchScGen (daughterLoop H C particlesMc particle decayType ds s) = rowMCMatchScGen s"
  by (induction ds arbitrary: s) (simp_all add: Let_def)

lemma daughterLoop_flag:
  "flag s = flag s'
   \<Longrightarrow> flag (daughterLoop H C particlesMc particle decayType ds s)
       = flag (daughterLoop H C particlesMc particle decayType ds s')"
proof (induction ds arbitrary: s s')
  case Nil
  then show ?case by simp
next
  case (Cons d ds)
  have step: "flag (daughterLoop H C particlesMc particle decayType ds (s\<lparr>signMc := x\<rparr>))
              = flag (daughterLoop H C particlesMc particle decayType ds (s'\<lparr>signMc := x\<rparr>))"
    for x
    by (rule Cons.IH) (simp add: Cons.prems)
  have skip: "flag (daughterLoop H C particlesMc particle decayType ds s)
              = flag (daughterLoop H C particlesMc particle decayType ds s')"
    by (rule Cons.IH) (rule Cons.prems)
  show ?case
    by (simp add: Let_def step skip)
qed

lemma matchGen_frame:
  "indexRec (matchGen H C particlesMc particle s) = indexRec s"
  "origin (matchGen H C particlesMc particle s) = origin s"
  "rowMCMatchScRec (matchGen H C particlesMc particle s) = rowMCMatchScRec s"
  "rowMCMatchScGen (matchGen H C particlesMc particle s) = rowMCMatchScGen s"
  by (simp_all add: matchGen_def Let_def daughterLoop_frame)

lemma matchGen_flag:
  assumes "flag s = flag s'"
  shows "flag (matchGen H C particlesMc particle s) = flag (matchGen H C particlesMc particle s')"
proof -
  have d: "flag (daughterLoop H C particlesMc particle k ds (s\<lparr>signMc := x\<rparr>))
           = flag (daughterLoop H C particlesMc particle k ds (s'\<lparr>signMc := x\<rparr>))" for k ds x
    by (rule daughterLoop_flag) (simp add: assms)
  show ?thesis
    by (simp add: matchGen_def Let_def d assms)
qed

lemma genStep_unfold:
  "genStep H C particlesMc particle s
   = fillGen (checkOrigin H particlesMc
       (matchGen H C particlesMc particle (s\<lparr>flag := 0, origin := 0\<rparr>)))"
  by (simp add: genStep_def Let_def)

lemma genStep_flag:
  "flag (genStep H C particlesMc particle s) = flag (genStep H C particlesMc particle s')"
proof -
  have "flag (matchGen H C particlesMc particle (s\<lparr>flag := 0, origin := 0\<rparr>))
        = flag (matchGen H C particlesMc particle (s'\<lparr>flag := 0, origin := 0\<rparr>))"
    by (rule matchGen_flag) simp
  then show ?thesis
    by (simp only: genStep_unfold fillGen_frame checkOrigin_frame)
qed

text \<open>
  The origin block of the loop over the generated particles takes the table row at
  \<^verbatim>\<open>indexRec\<close>, a variable that this loop never assigns.
\<close>

lemma genStep_origin:
  "origin (genStep H C particlesMc particle s)
   = (if flag (genStep H C particlesMc particle s) \<noteq> 0
      then word_of_int (getCharmHadronOrigin H particlesMc (indexRec s)) else 0)"
  by (simp add: genStep_unfold fillGen_frame checkOrigin_frame checkOrigin_origin matchGen_frame)

lemma genStep_frame:
  "indexRec (genStep H C particlesMc particle s) = indexRec s"
  "rowMCMatchScRec (genStep H C particlesMc particle s) = rowMCMatchScRec s"
  by (simp_all add: genStep_unfold fillGen_frame checkOrigin_frame matchGen_frame)

lemma genStep_rows:
  "rowMCMatchScGen (genStep H C particlesMc particle s)
   = rowMCMatchScGen s @ [genLabel H C particlesMc (indexRec s) particle]"
proof -
  let ?s' = "mc_init\<lparr>indexRec := indexRec s\<rparr>"
  have f: "flag (genStep H C particlesMc particle s) = flag (genStep H C particlesMc particle ?s')"
    by (rule genStep_flag)
  have o: "origin (genStep H C particlesMc particle s)
           = origin (genStep H C particlesMc particle ?s')"
    by (simp add: genStep_origin f [symmetric])
  have "rowMCMatchScGen (genStep H C particlesMc particle s)
        = rowMCMatchScGen s @ [(flag (genStep H C particlesMc particle s),
                                origin (genStep H C particlesMc particle s))]"
    by (simp add: genStep_unfold fillGen_frame checkOrigin_frame matchGen_frame)
  also have "\<dots> = rowMCMatchScGen s @ [genLabel H C particlesMc (indexRec s) particle]"
    by (simp only: genLabel_def f o)
  finally show ?thesis .
qed

lemma genSteps_rows:
  "rowMCMatchScGen (fold (genStep H C particlesMc) ps s)
   = rowMCMatchScGen s @ map (genLabel H C particlesMc (indexRec s)) ps"
  "rowMCMatchScRec (fold (genStep H C particlesMc) ps s) = rowMCMatchScRec s"
  by (induction ps arbitrary: s) (simp_all add: genStep_rows genStep_frame)

lemma processMc_rows:
  "rowMCMatchScRec (processMc H C particlesMc candidatesSigmac)
   = map (recLabel H C particlesMc) candidatesSigmac"
  "rowMCMatchScGen (processMc H C particlesMc candidatesSigmac)
   = map (genLabel H C particlesMc (indexRec (recLoop H C particlesMc candidatesSigmac mc_init)))
       (map int [0..<length particlesMc])"
  by (simp_all only: processMc_def genLoop_def genSteps_rows recLoop_rows recLoop_gen_rows)
    (simp_all add: mc_init_def)

lemma recLabel_unmatched:
  "\<bar>sint (flagMcMatchRec (prongLc candSigmac))\<bar> \<noteq> push_bit (LcToPKPi C) 1
   \<Longrightarrow> recLabel H C particlesMc candSigmac = (0, 0)"
  by (simp add: recLabel_def recStep_unmatched)

lemma recLabel_other_charge:
  "\<bar>sint (flagMcMatchRec (prongLc candSigmac))\<bar> = push_bit (LcToPKPi C) 1
   \<Longrightarrow> charge candSigmac \<noteq> 0 \<Longrightarrow> \<bar>sint (charge candSigmac)\<bar> \<noteq> 2
   \<Longrightarrow> recLabel H C particlesMc candSigmac = (0, 0)"
  by (simp add: recLabel_def recStep_other_charge)

subsection \<open>The second-level check on the particle itself\<close>

lemma daughterLoop_no_match:
  assumes "\<not> fst (isMatchedMCGen H particlesMc particle (kLambdaCPlus C)
                    [kProton C, - kKPlus C, kPiPlus C] True 2)"
  shows "flag (daughterLoop H C particlesMc particle decayType ds s) = flag s"
  using assms by (induction ds arbitrary: s) (simp_all add: Let_def)

text \<open>
  A helper that accepts a particle only when it is of the expected species, as the one of the
  specification does, cannot accept the particle both as a \<open>\<Sigma>c\<close> and as a \<open>\<Lambda>c\<close>: the loop over
  the generated particles then never sets a flag.
\<close>

lemma matchGen_never_sets_flag:
  assumes species: "\<And>pdgMother ds anti depth.
      fst (isMatchedMCGen H particlesMc particle pdgMother ds anti depth)
      \<Longrightarrow> \<bar>pdgCodeAt particlesMc particle\<bar> = \<bar>pdgMother\<bar>"
    and c0: "\<bar>kSigmaC0 C\<bar> \<noteq> \<bar>kLambdaCPlus C\<bar>"
    and cpp: "\<bar>kSigmaCPlusPlus C\<bar> \<noteq> \<bar>kLambdaCPlus C\<bar>"
  shows "flag (matchGen H C particlesMc particle s) = flag s"
proof -
  let ?lc = "fst (isMatchedMCGen H particlesMc particle (kLambdaCPlus C)
                    [kProton C, - kKPlus C, kPiPlus C] True 2)"
  let ?r0 = "isMatchedMCGen H particlesMc particle (kSigmaC0 C) [kLambdaCPlus C, kPiMinus C] True 1"
  let ?r1 = "isMatchedMCGen H particlesMc particle (kSigmaCPlusPlus C)
               [kLambdaCPlus C, kPiPlus C] True 1"
  have n0: "\<not> ?lc" if "fst ?r0"
    using species [OF that] species [of "kLambdaCPlus C"] c0 by auto
  have n1: "\<not> ?lc" if "fst ?r1"
    using species [OF that] species [of "kLambdaCPlus C"] cpp by auto
  show ?thesis
  proof (cases "fst ?r0")
    case True
    then show ?thesis
      by (simp add: matchGen_def Let_def daughterLoop_no_match [OF n0 [OF True]])
  next
    case False
    show ?thesis
    proof (cases "fst ?r1")
      case True
      with False show ?thesis
        by (simp add: matchGen_def Let_def daughterLoop_no_match [OF n1 [OF True]])
    next
      case r1: False
      with False show ?thesis
        by (simp add: matchGen_def Let_def)
    qed
  qed
qed

lemma isMatchedMCGen_spec_species:
  "fst (isMatchedMCGen_spec particlesMc particle pdgMother ds anti depth)
   \<Longrightarrow> \<bar>pdgCodeAt particlesMc particle\<bar> = \<bar>pdgMother\<bar>"
  by (auto simp add: isMatchedMCGen_spec_def pdgCodeAt_def Let_def
      split: option.splits if_splits)

lemma genLabel_spec_zero:
  assumes "\<bar>kSigmaC0 C\<bar> \<noteq> \<bar>kLambdaCPlus C\<bar>" and "\<bar>kSigmaCPlusPlus C\<bar> \<noteq> \<bar>kLambdaCPlus C\<bar>"
    and "isMatchedMCGen H = isMatchedMCGen_spec"
  shows "genLabel H C particlesMc indexRecLeft particle = (0, 0)"
proof -
  have f: "flag (matchGen H C particlesMc particle s) = flag s" for s
    by (rule matchGen_never_sets_flag)
      (simp_all add: assms isMatchedMCGen_spec_species)
  have "flag (genStep H C particlesMc particle s) = 0" for s
    by (simp add: genStep_unfold fillGen_frame checkOrigin_frame f)
  then show ?thesis
    by (simp add: genLabel_def genStep_origin)
qed

lemma scenarioD_facts:
  "length scenarioD = 6"
  "daughters_as scenarioD 0 = [1, 2]"
  "pdgCodeAt scenarioD 0 = kSigmaCPlusPlus o2"
  "pdgCodeAt scenarioD 1 = kLambdaCPlus o2"
  by (simp_all add: scenarioD_def daughters_as_def pdgCodeAt_def rowAt_def o2_def)

lemma scenarioD_first_level:
  "isMatchedMCGen_spec scenarioD 0 (kSigmaCPlusPlus o2) [kLambdaCPlus o2, kPiPlus o2] True 1
   = (True, 1)"
  by (simp add: isMatchedMCGen_spec_def scenarioD_def pdgCodeAt_def rowAt_def o2_def Let_def)

lemma scenarioD_second_level:
  "isMatchedMCGen_spec scenarioD 1 (kLambdaCPlus o2) [kProton o2, - kKPlus o2, kPiPlus o2] True 2
   = (True, 1)"
  by (simp add: isMatchedMCGen_spec_def scenarioD_def pdgCodeAt_def rowAt_def o2_def Let_def)

lemma scenarioD_on_particle:
  "isMatchedMCGen_spec scenarioD 0 (kLambdaCPlus o2) [kProton o2, - kKPlus o2, kPiPlus o2] True 2
   = (False, 0)"
  by (simp add: isMatchedMCGen_spec_def scenarioD_def pdgCodeAt_def rowAt_def o2_def Let_def)

section \<open>The properties of the candidate creator\<close>

text \<open>
  C1 (charge domain). Every row that \<^verbatim>\<open>process\<close> writes carries, as its charge, the
  \<^verbatim>\<open>int8_t\<close> sum of the three prong signs of one of the candidates and the sign of one of the
  tracks, and this charge is -2, 0 or +2. No row with another charge is written, whatever the
  signs are.
\<close>

theorem C1_charge_domain:
  assumes "r \<in> set (rowScCandidates (process C E cfg tracks candidates out0))"
  shows "(\<exists>candLc \<in> set candidates. \<exists>t \<in> set tracks.
            rowCharge r = word_of_int (sint (sign (prong0 candLc)) + sint (sign (prong1 candLc))
                          + sint (sign (prong2 candLc)) + sint (sign t)))
         \<and> (sint (rowCharge r) = - 2 \<or> sint (rowCharge r) = 0 \<or> sint (rowCharge r) = 2)"
proof -
  from process_row_pair [OF assms]
  obtain candLc t where mem: "candLc \<in> set candidates" "t \<in> set tracks"
    and q: "qualifiesTrack E candLc t"
    and r: "r = scRow candLc (statusOf (passPKPi E cfg candLc))
                  (statusOf (passPiKP E cfg candLc)) t"
    by blast
  have c: "rowCharge r = chargeSigmacOf candLc t"
    by (simp add: r scRow_def)
  have "validCharge (rowCharge r)"
    using q by (simp add: c qualifiesTrack_def)
  then have dom: "sint (rowCharge r) = - 2 \<or> sint (rowCharge r) = 0 \<or> sint (rowCharge r) = 2"
    by (rule validCharge_values)
  have "rowCharge r = word_of_int (sint (sign (prong0 candLc)) + sint (sign (prong1 candLc))
                          + sint (sign (prong2 candLc)) + sint (sign t))"
    by (simp add: c chargeSigmacOf_def chargeLcOf_def)
  with mem dom show ?thesis by blast
qed

text \<open>Scenario A: the row built with track 21 is written and has charge +2.\<close>

theorem C1_charge_domain_witness:
  "scRow lcA 1 0 (trk 21 1)
     \<in> set (rowScCandidates (process o2 exEnv exCfg [trk 20 (- 1), trk 21 1] [lcA] out0))
   \<and> sint (rowCharge (scRow lcA 1 0 (trk 21 1))) = 2"
proof -
  have m: "scRow lcA 1 0 (trk 21 1)
     \<in> set (rowScCandidates (process o2 exEnv exCfg [trk 20 (- 1), trk 21 1] [lcA] out0))"
    by (simp add: scenarioA)
  have "sint (rowCharge (scRow lcA 1 0 (trk 21 1))) \<noteq> - 2"
       "sint (rowCharge (scRow lcA 1 0 (trk 21 1))) \<noteq> 0"
    by (simp_all add: scRow_def q_defs ex_defs)
  with C1_charge_domain [OF m] m show ?thesis by blast
qed

text \<open>
  C3 (no self-pairing). Every row that \<^verbatim>\<open>process\<close> writes refers to a candidate and a track of
  the event whose global index differs from the global index of each of the candidate's three
  prongs. A pair whose track has the global index of a prong leaves the output as it is.
\<close>

theorem C3_no_self_pairing:
  "(r \<in> set (rowScCandidates (process C E cfg tracks candidates out0)) \<longrightarrow>
      (\<exists>candLc \<in> set candidates. \<exists>t \<in> set tracks.
          rowLcGlobalIndex r = globalIndexLc candLc \<and> rowSoftPiGlobalIndex r = globalIndex t
          \<and> globalIndex t \<noteq> globalIndex (prong0 candLc)
          \<and> globalIndex t \<noteq> globalIndex (prong1 candLc)
          \<and> globalIndex t \<noteq> globalIndex (prong2 candLc)))
   \<and> (globalIndex t' = globalIndex (prong0 L) \<or> globalIndex t' = globalIndex (prong1 L)
         \<or> globalIndex t' = globalIndex (prong2 L)
       \<longrightarrow> trackStep E L a b t' s = s)"
proof (intro conjI impI)
  assume "r \<in> set (rowScCandidates (process C E cfg tracks candidates out0))"
  from process_row_pair [OF this]
  obtain candLc t where mem: "candLc \<in> set candidates" "t \<in> set tracks"
    and q: "qualifiesTrack E candLc t"
    and r: "r = scRow candLc (statusOf (passPKPi E cfg candLc))
                  (statusOf (passPiKP E cfg candLc)) t"
    by blast
  have ids: "rowLcGlobalIndex r = globalIndexLc candLc" "rowSoftPiGlobalIndex r = globalIndex t"
    by (simp_all add: r scRow_def)
  have "\<not> selfPaired candLc t"
    using q by (simp add: qualifiesTrack_def)
  then have "globalIndex t \<noteq> globalIndex (prong0 candLc)"
    "globalIndex t \<noteq> globalIndex (prong1 candLc)"
    "globalIndex t \<noteq> globalIndex (prong2 candLc)"
    using selfPaired_if_same_index [of t candLc] by auto
  with mem ids show "\<exists>candLc \<in> set candidates. \<exists>t \<in> set tracks.
          rowLcGlobalIndex r = globalIndexLc candLc \<and> rowSoftPiGlobalIndex r = globalIndex t
          \<and> globalIndex t \<noteq> globalIndex (prong0 candLc)
          \<and> globalIndex t \<noteq> globalIndex (prong1 candLc)
          \<and> globalIndex t \<noteq> globalIndex (prong2 candLc)"
    by blast
next
  assume "globalIndex t' = globalIndex (prong0 L) \<or> globalIndex t' = globalIndex (prong1 L)
         \<or> globalIndex t' = globalIndex (prong2 L)"
  then have "selfPaired L t'" by (rule selfPaired_if_same_index)
  then show "trackStep E L a b t' s = s" by (rule trackStep_skip_selfPaired)
qed

text \<open>
  Scenario B: the row built with track 21 is written and its track is none of the prongs;
  track 10 is the first prong, and its pair writes nothing.
\<close>

theorem C3_no_self_pairing_witness:
  "scRow lcA 1 0 (trk 21 1)
      \<in> set (rowScCandidates (process o2 exEnv exCfg [trk 10 1, trk 21 1] [lcA] out0))
   \<and> rowSoftPiGlobalIndex (scRow lcA 1 0 (trk 21 1)) \<noteq> globalIndex (prong0 lcA)
   \<and> rowSoftPiGlobalIndex (scRow lcA 1 0 (trk 21 1)) \<noteq> globalIndex (prong1 lcA)
   \<and> rowSoftPiGlobalIndex (scRow lcA 1 0 (trk 21 1)) \<noteq> globalIndex (prong2 lcA)
   \<and> globalIndex (trk 10 1) = globalIndex (prong0 lcA)
   \<and> trackStep exEnv lcA 1 0 (trk 10 1) out0 = out0"
proof -
  have m: "scRow lcA 1 0 (trk 21 1)
      \<in> set (rowScCandidates (process o2 exEnv exCfg [trk 10 1, trk 21 1] [lcA] out0))"
    by (simp add: scenarioB)
  have g: "globalIndex (trk 10 1) = globalIndex (prong0 lcA)"
    by (simp add: ex_defs)
  have "rowSoftPiGlobalIndex (scRow lcA 1 0 (trk 21 1)) = globalIndex t
        \<Longrightarrow> t \<in> set [trk 10 1, trk 21 1] \<Longrightarrow> globalIndex t = 21" for t
    by (auto simp add: scRow_def ex_defs)
  with C3_no_self_pairing [where r = "scRow lcA 1 0 (trk 21 1)" and C = o2 and E = exEnv
      and cfg = exCfg and tracks = "[trk 10 1, trk 21 1]" and candidates = "[lcA]"
      and t' = "trk 10 1" and L = lcA and a = 1 and b = 0 and s = out0] m g
  show ?thesis
    by auto
qed

text \<open>
  C4 (mass-window gating). A candidate for which neither mass hypothesis passes its window
  check (selected for the hypothesis, and the invariant mass within the tolerance of the
  \<open>\<Lambda>c\<close> mass) leaves the output as it is, whatever the tracks are; the event gives the same
  result with and without this candidate.
\<close>

theorem C4_mass_window_gating:
  assumes "\<not> (isSelLcToPKPi candLc \<ge> 1
              \<and> \<bar>invMassLcToPKPi E candLc - massLambdaCPlus E\<bar> \<le> mPKPiCandLcMax cfg)"
    and "\<not> (isSelLcToPiKP candLc \<ge> 1
              \<and> \<bar>invMassLcToPiKP E candLc - massLambdaCPlus E\<bar> \<le> mPiKPCandLcMax cfg)"
  shows "candStep C E cfg tracks candLc s = s
     \<and> process C E cfg tracks (cs1 @ candLc # cs2) s = process C E cfg tracks (cs1 @ cs2) s"
proof -
  have skip: "candStep C E cfg tracks candLc s' = s'" for s'
    using assms by (intro candStep_skip_mass) (simp_all add: passPKPi_def passPiKP_def)
  then show ?thesis
    by (simp add: process_def)
qed

text \<open>
  Scenario C: the candidate is selected for the first hypothesis only, with a mass of 2.40,
  and nothing is written for it.
\<close>

theorem C4_mass_window_gating_witness:
  "candStep o2 exEnv exCfg [trk 20 (- 1), trk 21 1] lcC out0 = out0
   \<and> process o2 exEnv exCfg [trk 20 (- 1), trk 21 1] ([lcA] @ lcC # []) out0
       = process o2 exEnv exCfg [trk 20 (- 1), trk 21 1] ([lcA] @ []) out0
   \<and> isSelLcToPKPi lcC = 1 \<and> invMassLcToPKPi exEnv lcC = 2.40 \<and> isSelLcToPiKP lcC = 0"
proof -
  have a: "\<not> (isSelLcToPKPi lcC \<ge> 1
              \<and> \<bar>invMassLcToPKPi exEnv lcC - massLambdaCPlus exEnv\<bar> \<le> mPKPiCandLcMax exCfg)"
    by (simp add: ex_defs)
  have b: "\<not> (isSelLcToPiKP lcC \<ge> 1
              \<and> \<bar>invMassLcToPiKP exEnv lcC - massLambdaCPlus exEnv\<bar> \<le> mPiKPCandLcMax exCfg)"
    by (simp add: ex_defs)
  have c: "isSelLcToPKPi lcC = 1 \<and> invMassLcToPKPi exEnv lcC = 2.40 \<and> isSelLcToPiKP lcC = 0"
    by (simp add: ex_defs)
  from C4_mass_window_gating [OF a b, of o2 "[trk 20 (- 1), trk 21 1]" out0 "[lcA]" "[]"] c
  show ?thesis by blast
qed

text \<open>
  C9 (impossible charge). Take an event in which a candidate enters the loop over tracks and
  one of the tracks reaches the charge check with it (the track passes the cuts and is not a
  prong) with a charge sum of a magnitude other than 0 and 2. The pair step logs the two
  contributing charges and writes no row. \<^verbatim>\<open>process\<close> logs these charges, after the messages
  of the earlier pairs and before those of the later ones, and writes the rows of all other
  pairs: those of the earlier candidates, those of the candidate with the tracks before and
  after the offending one, and those of the later candidates with all tracks. An event
  processed afterwards has all its rows written after these.
\<close>

theorem C9_invalid_charge_dropped:
  assumes "qualifiesLc C E cfg candLc"
    and "IsSelected E t" and "\<not> selfPaired candLc t"
    and "\<bar>sint (chargeSigmacOf candLc t)\<bar> \<noteq> 0" and "\<bar>sint (chargeSigmacOf candLc t)\<bar> \<noteq> 2"
  shows "trackStep E candLc a b t s'
           = s'\<lparr>logFatal := logFatal s' @ [(chargeLcOf candLc, sint (sign t))]\<rparr>
     \<and> logFatal (process C E cfg (ts1 @ t # ts2) (cs1 @ candLc # cs2) s)
           = logFatal (process C E cfg (ts1 @ t # ts2) cs1 s)
             @ pairLogs E candLc ts1 @ [(chargeLcOf candLc, sint (sign t))] @ pairLogs E candLc ts2
             @ concat (map (\<lambda>L. pairLogs E L (ts1 @ t # ts2)) (filter (qualifiesLc C E cfg) cs2))
     \<and> rowScCandidates (process C E cfg (ts1 @ t # ts2) (cs1 @ candLc # cs2) s)
           = rowScCandidates (process C E cfg (ts1 @ t # ts2) cs1 s)
             @ candRows E cfg (ts1 @ ts2) candLc
             @ concat (map (candRows E cfg (ts1 @ t # ts2)) (filter (qualifiesLc C E cfg) cs2))
     \<and> rowScCandidates (process C E cfg tracks' cands'
            (process C E cfg (ts1 @ t # ts2) (cs1 @ candLc # cs2) s))
           = rowScCandidates (process C E cfg (ts1 @ t # ts2) (cs1 @ candLc # cs2) s)
             @ concat (map (candRows E cfg tracks') (filter (qualifiesLc C E cfg) cands'))"
proof (intro conjI)
  have off: "offendsCharge E candLc t"
    using assms by (simp add: offendsCharge_def validCharge_def)
  have nq: "\<not> qualifiesTrack E candLc t"
    using assms by (simp add: qualifiesTrack_def validCharge_def)
  show "trackStep E candLc a b t s'
           = s'\<lparr>logFatal := logFatal s' @ [(chargeLcOf candLc, sint (sign t))]\<rparr>"
    using assms(2-5) by (rule trackStep_invalid_charge)
  show "logFatal (process C E cfg (ts1 @ t # ts2) (cs1 @ candLc # cs2) s)
           = logFatal (process C E cfg (ts1 @ t # ts2) cs1 s)
             @ pairLogs E candLc ts1 @ [(chargeLcOf candLc, sint (sign t))] @ pairLogs E candLc ts2
             @ concat (map (\<lambda>L. pairLogs E L (ts1 @ t # ts2)) (filter (qualifiesLc C E cfg) cs2))"
    using assms(1) off by (simp add: process_log pairLogs_def)
  show "rowScCandidates (process C E cfg (ts1 @ t # ts2) (cs1 @ candLc # cs2) s)
           = rowScCandidates (process C E cfg (ts1 @ t # ts2) cs1 s)
             @ candRows E cfg (ts1 @ ts2) candLc
             @ concat (map (candRows E cfg (ts1 @ t # ts2)) (filter (qualifiesLc C E cfg) cs2))"
    using assms(1) nq by (simp add: process_rows candRows_def pairRows_def)
  show "rowScCandidates (process C E cfg tracks' cands'
            (process C E cfg (ts1 @ t # ts2) (cs1 @ candLc # cs2) s))
           = rowScCandidates (process C E cfg (ts1 @ t # ts2) (cs1 @ candLc # cs2) s)
             @ concat (map (candRows E cfg tracks') (filter (qualifiesLc C E cfg) cands'))"
    by (rule process_rows)
qed

text \<open>
  An event with the tracks 20, 21 and 22 and two candidates, the first with three positive
  prongs. With the positive track 21 its sum is 4: \<^verbatim>\<open>process\<close> logs the charges 3 and 1,
  writes the rows of the first candidate with the tracks 20 and 22 and the three rows of the
  second candidate, and the two rows of a second event follow them.
\<close>

theorem C9_invalid_charge_dropped_witness:
  "qualifiesLc o2 exEnv exCfg lcPPP \<and> IsSelected exEnv (trk 21 1) \<and> \<not> selfPaired lcPPP (trk 21 1)
   \<and> sint (chargeSigmacOf lcPPP (trk 21 1)) = 4
   \<and> trackStep exEnv lcPPP 1 0 (trk 21 1) out0 = out0\<lparr>logFatal := [(3, 1)]\<rparr>
   \<and> logFatal (process o2 exEnv exCfg ([trk 20 (- 1)] @ trk 21 1 # [trk 22 (- 1)])
        ([] @ lcPPP # [lcA]) out0) = [(3, 1)]
   \<and> rowScCandidates (process o2 exEnv exCfg ([trk 20 (- 1)] @ trk 21 1 # [trk 22 (- 1)])
        ([] @ lcPPP # [lcA]) out0)
       = [scRow lcPPP 1 0 (trk 20 (- 1)), scRow lcPPP 1 0 (trk 22 (- 1)),
          scRow lcA 1 0 (trk 20 (- 1)), scRow lcA 1 0 (trk 21 1), scRow lcA 1 0 (trk 22 (- 1))]
   \<and> rowScCandidates (process o2 exEnv exCfg [trk 20 (- 1), trk 21 1] [lcA]
        (process o2 exEnv exCfg ([trk 20 (- 1)] @ trk 21 1 # [trk 22 (- 1)])
           ([] @ lcPPP # [lcA]) out0))
       = [scRow lcPPP 1 0 (trk 20 (- 1)), scRow lcPPP 1 0 (trk 22 (- 1)),
          scRow lcA 1 0 (trk 20 (- 1)), scRow lcA 1 0 (trk 21 1), scRow lcA 1 0 (trk 22 (- 1)),
          scRow lcA 1 0 (trk 20 (- 1)), scRow lcA 1 0 (trk 21 1)]"
proof -
  have q: "qualifiesLc o2 exEnv exCfg lcPPP" "qualifiesLc o2 exEnv exCfg lcA"
    by (simp_all add: q_defs ex_defs)
  have h1: "IsSelected exEnv (trk 21 1)" by (simp add: ex_defs)
  have h2: "\<not> selfPaired lcPPP (trk 21 1)" by (simp add: selfPaired_def ex_defs)
  have c: "sint (chargeSigmacOf lcPPP (trk 21 1)) = 4"
    by (simp add: chargeSigmacOf_def chargeLcOf_def ex_defs)
  have h3: "\<bar>sint (chargeSigmacOf lcPPP (trk 21 1))\<bar> \<noteq> 0"
    and h4: "\<bar>sint (chargeSigmacOf lcPPP (trk 21 1))\<bar> \<noteq> 2"
    by (simp_all add: c)
  have start: "process o2 exEnv exCfg [trk 20 (- 1), trk 21 1, trk 22 (- 1)] [] out0 = out0"
    "logFatal out0 = []" "rowScCandidates out0 = []"
    by (simp_all add: process_def out0_def)
  have logs: "pairLogs exEnv lcPPP [trk 20 (- 1)] = []" "pairLogs exEnv lcPPP [trk 22 (- 1)] = []"
    "pairLogs exEnv lcA [trk 20 (- 1), trk 21 1, trk 22 (- 1)] = []"
    "chargeLcOf lcPPP = 3" "sint (sign (trk 21 1)) = 1"
    by (simp_all add: pairLogs_def offendsCharge_def q_defs ex_defs)
  have rows: "candRows exEnv exCfg [trk 20 (- 1), trk 22 (- 1)] lcPPP
               = [scRow lcPPP 1 0 (trk 20 (- 1)), scRow lcPPP 1 0 (trk 22 (- 1))]"
    "candRows exEnv exCfg [trk 20 (- 1), trk 21 1, trk 22 (- 1)] lcA
               = [scRow lcA 1 0 (trk 20 (- 1)), scRow lcA 1 0 (trk 21 1),
                  scRow lcA 1 0 (trk 22 (- 1))]"
    "candRows exEnv exCfg [trk 20 (- 1), trk 21 1] lcA
               = [scRow lcA 1 0 (trk 20 (- 1)), scRow lcA 1 0 (trk 21 1)]"
    by (simp_all add: candRows_def pairRows_def q_defs ex_defs)
  from C9_invalid_charge_dropped [OF q(1) h1 h2 h3 h4, of 1 0 out0 "[trk 20 (- 1)]"
      "[trk 22 (- 1)]" "[]" "[lcA]" out0 "[trk 20 (- 1), trk 21 1]" "[lcA]"]
  show ?thesis
    by (simp add: start logs rows q h1 h2 c)
qed

text \<open>
  C2 (combinatorial completeness), as amended. The number of rows written for an event is the
  sum, over the qualifying candidates, of the number of tracks that qualify for that candidate
  (pass the cuts, are not one of its prongs, give a valid charge with it). Where every
  qualifying candidate has the same number \<open>N\<close> of qualifying tracks, this is \<open>M\<close> times \<open>N\<close>
  for \<open>M\<close> qualifying candidates. The number never decreases when candidates or tracks are
  added to the event.
\<close>

theorem C2_rows_count:
  "numRows C E cfg tracks candidates
     = sum_list (map (\<lambda>candLc. numQualifyingTracks E candLc tracks)
         (filter (qualifiesLc C E cfg) candidates))
   \<and> ((\<forall>candLc \<in> set candidates.
          qualifiesLc C E cfg candLc \<longrightarrow> numQualifyingTracks E candLc tracks = N)
       \<longrightarrow> numRows C E cfg tracks candidates = numQualifyingLc C E cfg candidates * N)
   \<and> numRows C E cfg tracks candidates \<le> numRows C E cfg (tracks @ ts) (candidates @ cs)"
  using numRows_sum [of C E cfg tracks candidates]
    numRows_uniform [of candidates C E cfg tracks N]
    numRows_mono [of C E cfg tracks candidates ts cs]
  by blast

text \<open>
  Two qualifying candidates with two qualifying tracks each give four rows, and five once a
  track and a candidate are added.
\<close>

theorem C2_rows_count_witness:
  "numQualifyingTracks exEnv lcA [trk 20 (- 1), trk 21 1] = 2
   \<and> numQualifyingTracks exEnv lcB [trk 20 (- 1), trk 21 1] = 2
   \<and> qualifiesLc o2 exEnv exCfg lcA \<and> qualifiesLc o2 exEnv exCfg lcB
   \<and> numQualifyingLc o2 exEnv exCfg [lcA, lcB] = 2
   \<and> numRows o2 exEnv exCfg [trk 20 (- 1), trk 21 1] [lcA, lcB] = 2 * 2
   \<and> numRows o2 exEnv exCfg [trk 20 (- 1), trk 21 1] [lcA, lcB]
       \<le> numRows o2 exEnv exCfg ([trk 20 (- 1), trk 21 1] @ [trk 12 1]) ([lcA, lcB] @ [lcC])"
proof -
  have n: "numQualifyingTracks exEnv lcA [trk 20 (- 1), trk 21 1] = 2"
    "numQualifyingTracks exEnv lcB [trk 20 (- 1), trk 21 1] = 2"
    by (simp_all add: numQualifyingTracks_def q_defs ex_defs)
  have q: "qualifiesLc o2 exEnv exCfg lcA" "qualifiesLc o2 exEnv exCfg lcB"
    by (simp_all add: q_defs ex_defs)
  have m: "numQualifyingLc o2 exEnv exCfg [lcA, lcB] = 2"
    by (simp add: numQualifyingLc_def q)
  have u: "\<forall>candLc \<in> set [lcA, lcB]. qualifiesLc o2 exEnv exCfg candLc
             \<longrightarrow> numQualifyingTracks exEnv candLc [trk 20 (- 1), trk 21 1] = 2"
    by (simp add: n)
  from C2_rows_count [of o2 exEnv exCfg "[trk 20 (- 1), trk 21 1]" "[lcA, lcB]" 2
      "[trk 12 1]" "[lcC]"] u n q m
  show ?thesis by simp
qed

text \<open>
  The claim as stated, with one number of qualifying tracks for the event, fails: of the tracks
  10, 11, 12 and 20, one qualifies for \<open>lcA\<close> (its prongs are 10, 11 and 12) and two qualify
  for \<open>lcB\<close> (its prongs are 10, 11 and 13). The two qualifying candidates give three rows,
  which is twice neither number.
\<close>

theorem C2_rows_count_counterexample:
  "numRows o2 exEnv exCfg [trk 10 1, trk 11 (- 1), trk 12 1, trk 20 (- 1)] [lcA, lcB] = 3
   \<and> numQualifyingLc o2 exEnv exCfg [lcA, lcB] = 2
   \<and> numQualifyingTracks exEnv lcA [trk 10 1, trk 11 (- 1), trk 12 1, trk 20 (- 1)] = 1
   \<and> numQualifyingTracks exEnv lcB [trk 10 1, trk 11 (- 1), trk 12 1, trk 20 (- 1)] = 2
   \<and> numRows o2 exEnv exCfg [trk 10 1, trk 11 (- 1), trk 12 1, trk 20 (- 1)] [lcA, lcB]
       \<noteq> numQualifyingLc o2 exEnv exCfg [lcA, lcB]
           * numQualifyingTracks exEnv lcA [trk 10 1, trk 11 (- 1), trk 12 1, trk 20 (- 1)]
   \<and> numRows o2 exEnv exCfg [trk 10 1, trk 11 (- 1), trk 12 1, trk 20 (- 1)] [lcA, lcB]
       \<noteq> numQualifyingLc o2 exEnv exCfg [lcA, lcB]
           * numQualifyingTracks exEnv lcB [trk 10 1, trk 11 (- 1), trk 12 1, trk 20 (- 1)]"
  by (simp only: ce_counts) simp

section \<open>The properties of the matching\<close>

text \<open>
  C7 (short-circuit at reconstruction level). A reconstructed candidate whose \<open>\<Lambda>c\<close> has a
  matching flag of a magnitude other than the bit of the expected decay type gets the label
  (0, 0) at once: the step resets the local variables and fills (0, 0), whatever the helpers,
  the particle table and the soft-pion track are, and the row of the candidate in the output
  of \<^verbatim>\<open>processMc\<close> is (0, 0).
\<close>

theorem C7_rec_short_circuit:
  assumes "\<bar>sint (flagMcMatchRec (prongLc candSigmac))\<bar> \<noteq> push_bit (LcToPKPi C) 1"
  shows "recStep H C particlesMc (candSigmac\<lparr>prongSoftPi := t\<rparr>) s
           = s\<lparr>indexRec := - 1, signMc := 0, flag := 0, origin := 0,
                rowMCMatchScRec := rowMCMatchScRec s @ [(0, 0)]\<rparr>
     \<and> recLabel H C particlesMc (candSigmac\<lparr>prongSoftPi := t\<rparr>) = (0, 0)
     \<and> rowMCMatchScRec (processMc H C particlesMc (cs1 @ candSigmac # cs2)) ! length cs1 = (0, 0)"
proof (intro conjI)
  have a: "\<bar>sint (flagMcMatchRec (prongLc (candSigmac\<lparr>prongSoftPi := t\<rparr>)))\<bar>
           \<noteq> push_bit (LcToPKPi C) 1"
    using assms by simp
  show "recStep H C particlesMc (candSigmac\<lparr>prongSoftPi := t\<rparr>) s
           = s\<lparr>indexRec := - 1, signMc := 0, flag := 0, origin := 0,
                rowMCMatchScRec := rowMCMatchScRec s @ [(0, 0)]\<rparr>"
    using a by (rule recStep_unmatched)
  show "recLabel H C particlesMc (candSigmac\<lparr>prongSoftPi := t\<rparr>) = (0, 0)"
    using a by (rule recLabel_unmatched)
  show "rowMCMatchScRec (processMc H C particlesMc (cs1 @ candSigmac # cs2)) ! length cs1 = (0, 0)"
    by (simp add: processMc_rows nth_append recLabel_unmatched [OF assms])
qed

text \<open>
  On the tracks of scenario D the candidate with a matched \<open>\<Lambda>c\<close> (flag 2) gets the label
  (2, 1); with the flag 6, which has the expected bit and another one, it gets (0, 0), also
  with another soft pion.
\<close>

theorem C7_rec_short_circuit_witness:
  "\<bar>sint (flagMcMatchRec (prongLc (scD 6 2)))\<bar> = 6 \<and> push_bit (LcToPKPi o2) 1 = (2 :: int)
   \<and> recLabel recoDecay_spec o2 scenarioD (scD 2 2) = (2, 1)
   \<and> recLabel recoDecay_spec o2 scenarioD ((scD 6 2)\<lparr>prongSoftPi := \<lparr>mcParticleId = 5\<rparr>\<rparr>) = (0, 0)
   \<and> rowMCMatchScRec (processMc recoDecay_spec o2 scenarioD ([scD 2 2] @ scD 6 2 # [])) ! length [scD 2 2]
       = (0, 0)"
proof -
  have f: "\<bar>sint (flagMcMatchRec (prongLc (scD 6 2)))\<bar> = 6" "push_bit (LcToPKPi o2) 1 = (2 :: int)"
    by (simp_all add: scD_def o2_def)
  then have a: "\<bar>sint (flagMcMatchRec (prongLc (scD 6 2)))\<bar> \<noteq> push_bit (LcToPKPi o2) 1"
    by simp
  have m: "recLabel recoDecay_spec o2 scenarioD (scD 2 2) = (2, 1)"
    by code_simp
  from C7_rec_short_circuit [OF a, of recoDecay_spec scenarioD "\<lparr>mcParticleId = 5\<rparr>" mc_init
      "[scD 2 2]" "[]"] f m
  show ?thesis by simp
qed

text \<open>
  C10 (other stored charges). A reconstructed candidate whose \<open>\<Lambda>c\<close> passed the precondition
  and whose stored charge is neither 0 nor of magnitude 2 enters neither matching branch: the
  step takes no result of a helper, stores the charge and fills (0, 0). \<^verbatim>\<open>processMc\<close> has no
  logging and no failure, so nothing else happens.
\<close>

theorem C10_rec_other_charge:
  assumes "\<bar>sint (flagMcMatchRec (prongLc candSigmac))\<bar> = push_bit (LcToPKPi C) 1"
    and "charge candSigmac \<noteq> 0" and "\<bar>sint (charge candSigmac)\<bar> \<noteq> 2"
  shows "recStep H C particlesMc candSigmac s
           = s\<lparr>indexRec := - 1, signMc := 0, flag := 0, origin := 0,
                chargeSigmac := charge candSigmac,
                rowMCMatchScRec := rowMCMatchScRec s @ [(0, 0)]\<rparr>
     \<and> recLabel H C particlesMc candSigmac = (0, 0)
     \<and> rowMCMatchScRec (processMc H C particlesMc (cs1 @ candSigmac # cs2)) ! length cs1 = (0, 0)"
proof (intro conjI)
  show "recStep H C particlesMc candSigmac s
           = s\<lparr>indexRec := - 1, signMc := 0, flag := 0, origin := 0,
                chargeSigmac := charge candSigmac,
                rowMCMatchScRec := rowMCMatchScRec s @ [(0, 0)]\<rparr>"
    using assms by (rule recStep_other_charge)
  show l: "recLabel H C particlesMc candSigmac = (0, 0)"
    using assms by (rule recLabel_other_charge)
  show "rowMCMatchScRec (processMc H C particlesMc (cs1 @ candSigmac # cs2)) ! length cs1 = (0, 0)"
    by (simp add: processMc_rows nth_append l)
qed

text \<open>
  On the tracks of scenario D, with a matched \<open>\<Lambda>c\<close>: the stored charge 1 gives (0, 0), where
  the stored charge 2 gives (2, 1).
\<close>

theorem C10_rec_other_charge_witness:
  "\<bar>sint (flagMcMatchRec (prongLc (scD 2 1)))\<bar> = push_bit (LcToPKPi o2) 1
   \<and> charge (scD 2 1) = 1
   \<and> recLabel recoDecay_spec o2 scenarioD (scD 2 1) = (0, 0)
   \<and> recLabel recoDecay_spec o2 scenarioD (scD 2 2) = (2, 1)
   \<and> recStep recoDecay_spec o2 scenarioD (scD 2 1) mc_init
       = mc_init\<lparr>chargeSigmac := 1, rowMCMatchScRec := [(0, 0)]\<rparr>"
proof -
  have a: "\<bar>sint (flagMcMatchRec (prongLc (scD 2 1)))\<bar> = push_bit (LcToPKPi o2) 1"
    by (simp add: scD_def o2_def)
  have c: "charge (scD 2 1) = 1"
    by (simp add: scD_def)
  have b: "charge (scD 2 1) \<noteq> 0" "\<bar>sint (charge (scD 2 1))\<bar> \<noteq> 2"
    by (simp_all add: c)
  have m: "recLabel recoDecay_spec o2 scenarioD (scD 2 2) = (2, 1)"
    by code_simp
  from C10_rec_other_charge [OF a b, of recoDecay_spec scenarioD mc_init "[]" "[]"] a c m
  show ?thesis by (simp add: mc_init_def)
qed

text \<open>
  C8 (order alignment). \<^verbatim>\<open>processMc\<close> fills one label per reconstructed candidate and one per
  row of the particle table, in the order of the input: the reconstruction-level table is the
  list of the candidates' labels, the generation-level table is the list of the labels of the
  rows 0, 1, ... of the particle table (computed with the index that the first loop left).
\<close>

theorem C8_label_alignment:
  "rowMCMatchScRec (processMc H C particlesMc candidatesSigmac)
     = map (recLabel H C particlesMc) candidatesSigmac
   \<and> rowMCMatchScGen (processMc H C particlesMc candidatesSigmac)
     = map (genLabel H C particlesMc (indexRec (recLoop H C particlesMc candidatesSigmac mc_init)))
         (map int [0..<length particlesMc])
   \<and> length (rowMCMatchScRec (processMc H C particlesMc candidatesSigmac))
     = length candidatesSigmac
   \<and> length (rowMCMatchScGen (processMc H C particlesMc candidatesSigmac))
     = length particlesMc"
  by (simp add: processMc_rows)

text \<open>
  C5 (generation-level flag), at scenario D. Row 0 is a \<open>\<Sigma>c++\<close> whose daughters are a
  \<open>\<Lambda>c+\<close> and a \<open>\<pi>+\<close>, and its \<open>\<Lambda>c+\<close> daughter (row 1) decays into proton, \<open>K-\<close> and \<open>\<pi>+\<close>:
  the first-level check accepts row 0 and the second-level check accepts row 1. The code makes
  the second-level check on row 0 itself, where it fails, so every row of the table gets the
  label (0, 0), for every list of reconstructed candidates.
\<close>

theorem C5_generated_flag_scenarioD:
  "isMatchedMCGen_spec scenarioD 0 (kSigmaCPlusPlus o2) [kLambdaCPlus o2, kPiPlus o2] True 1
     = (True, 1)
   \<and> daughters_as scenarioD 0 = [1, 2]
   \<and> pdgCodeAt scenarioD 1 = kLambdaCPlus o2
   \<and> isMatchedMCGen_spec scenarioD 1 (kLambdaCPlus o2)
        [kProton o2, - kKPlus o2, kPiPlus o2] True 2 = (True, 1)
   \<and> isMatchedMCGen_spec scenarioD 0 (kLambdaCPlus o2)
        [kProton o2, - kKPlus o2, kPiPlus o2] True 2 = (False, 0)
   \<and> rowMCMatchScGen (processMc recoDecay_spec o2 scenarioD candidatesSigmac)
     = [(0, 0), (0, 0), (0, 0), (0, 0), (0, 0), (0, 0)]"
proof -
  have z: "genLabel recoDecay_spec o2 scenarioD ir particle = (0, 0)" for ir particle
    by (rule genLabel_spec_zero) (simp_all add: o2_def recoDecay_spec_def)
  have "rowMCMatchScGen (processMc recoDecay_spec o2 scenarioD candidatesSigmac)
        = replicate 6 (0, 0)"
    by (simp add: processMc_rows comp_def z map_replicate_const scenarioD_facts)
  then have "rowMCMatchScGen (processMc recoDecay_spec o2 scenarioD candidatesSigmac)
        = [(0, 0), (0, 0), (0, 0), (0, 0), (0, 0), (0, 0)]"
    by (simp add: numeral_eq_Suc)
  then show ?thesis
    by (simp only: scenarioD_first_level scenarioD_second_level scenarioD_on_particle
        scenarioD_facts simp_thms)
qed

end
